theory Spec2Isabelle
  imports Complex_Main "HOL-Library.Sublist" "HOL-Library.Word"
begin

section \<open>Data model (types.ts, MangaToVideoPanel)\<close>

text \<open>
  JavaScript numbers that hold normalized coordinates are modelled as exact rationals:
  the geometry is the arithmetic the handlers write down, without IEEE rounding.
  Counters and array positions are naturals.
\<close>

type_synonym CoordinatesArray = "rat \<times> rat \<times> rat \<times> rat"

record AudioInfo =
  src :: string
  duration :: rat
  audio_error :: "string option"

record PanelFlags =
  is_promotional :: "bool option"
  text_heavy :: "bool option"
  face_cut_risk :: "bool option"

datatype PanelStatus = Pending | Summarizing | Narrating | Complete | PanelError | Skipped

text \<open>
  \<open>Panel\<close> of types.ts, in three layers, since the detector builds panels without
  \<open>panel_id\<close> and \<open>index\<close> (\<open>Omit<Panel, 'panel_id' | 'index'>\<close>), then adds the
  identifier (\<open>Omit<Panel, 'index'>\<close>), and the state store adds the index. An optional
  field is an \<open>option\<close>; a dictionary keyed by language code is an association list in
  insertion order. The optional fields that no modelled function reads or writes by name
  (\<open>coords_px\<close>, \<open>narration\<close>, \<open>recommended_duration_s\<close>, \<open>character_anchors\<close>,
  \<open>text_bubbles\<close>, \<open>warnings\<close>, \<open>error\<close>) are carried by object spread only and are left
  out.
\<close>

record PanelBase =
  coordinates :: CoordinatesArray
  recap_texts :: "(string \<times> string) list option"
  confidence :: rat
  narration_tone :: "string option"
  key_action_description :: "string option"
  dialogue_summary :: "string option"
  flags :: "PanelFlags option"
  croppedImageBase64 :: "string option"
  audioInfos :: "(string \<times> AudioInfo) list"
  status :: PanelStatus

record PanelWithId = PanelBase +
  panel_id :: string

record Panel = PanelWithId +
  index :: nat

text \<open>
  \<open>StitchedPageAnalysis\<close>: the fields the handlers use (the image bytes, MIME type, hash
  and reading direction are copied along by spread and left out).
\<close>

record Page =
  stitch_id :: string
  chapter_id :: string
  image_width :: nat
  image_height :: nat
  stitchedFileName :: string
  panels :: "Panel list"

datatype ChapterStatus = ChPending | Stitching | Stitched | Processing | Processed | ChError

text \<open>
  Page objects are the only objects a handler writes in place (\<open>handleSplitPanel\<close> assigns
  the \<open>panels\<close> property of a page that the previous state still references). They live
  in a store, addressed by position, and a chapter holds references to its pages. Every
  other object is built fresh and never written afterwards, so it is a value.
\<close>

type_synonym Store = "Page list"

record Chapter =
  ch_id :: string
  ch_name :: string
  stitchedPages :: "nat list"
  ch_status :: ChapterStatus
  ch_error :: "string option"

record 'a History =
  past :: "'a list"
  present :: 'a
  future :: "'a list"

type_synonym World = "Store \<times> Chapter list History"

text \<open>An updater passed to \<open>setChapters\<close> runs on the store and the present state.\<close>

type_synonym Updater = "Store \<Rightarrow> Chapter list \<Rightarrow> Store \<times> Chapter list"

definition deref :: "Store \<Rightarrow> nat \<Rightarrow> Page" where
  "deref \<sigma> r = \<sigma> ! r"

text \<open>
  \<open>JSON.stringify\<close> of a chapter array, up to the text encoding: the tree the references
  lead to. Two arrays have the same string when these trees are equal.
\<close>

definition stringifyChapter ::
    "Store \<Rightarrow> Chapter \<Rightarrow> string \<times> string \<times> Page list \<times> ChapterStatus \<times> string option" where
  "stringifyChapter \<sigma> ch =
     (ch_id ch, ch_name ch, map (deref \<sigma>) (stitchedPages ch), ch_status ch, ch_error ch)"

definition stringify ::
    "Store \<Rightarrow> Chapter list \<Rightarrow> (string \<times> string \<times> Page list \<times> ChapterStatus \<times> string option) list" where
  "stringify \<sigma> chs = map (stringifyChapter \<sigma>) chs"

section \<open>The history-tracked update path\<close>

definition initialHistory :: "Chapter list History" where
  "initialHistory = \<lparr>past = [], present = [], future = []\<rparr>"

text \<open>
  \<open>setChapters\<close>: the updater runs first, on the live objects; the comparison of the two
  serialisations is made afterwards, in the store the updater left.
\<close>

definition setChapters :: "Updater \<Rightarrow> bool \<Rightarrow> World \<Rightarrow> World" where
  "setChapters updater recordHistory w =
     (case w of (\<sigma>, currentHistory) \<Rightarrow>
       (case updater \<sigma> (present currentHistory) of (\<sigma>', newPresent) \<Rightarrow>
         if \<not> recordHistory then (\<sigma>', currentHistory\<lparr>present := newPresent\<rparr>)
         else if stringify \<sigma>' newPresent = stringify \<sigma>' (present currentHistory)
           then (\<sigma>', currentHistory)
         else
           let newPast = past currentHistory @ [present currentHistory];
               newPast = (if length newPast > 50 then tl newPast else newPast)
           in (\<sigma>', \<lparr>past = newPast, present = newPresent, future = []\<rparr>)))"

definition handleUndo :: "'a History \<Rightarrow> 'a History" where
  "handleUndo h =
     (if length (past h) = 0 then h
      else
        let previous = past h ! (length (past h) - 1);
            newPast = take (length (past h) - 1) (past h)
        in \<lparr>past = newPast, present = previous, future = present h # future h\<rparr>)"

definition handleRedo :: "'a History \<Rightarrow> 'a History" where
  "handleRedo h =
     (if length (future h) = 0 then h
      else
        let next = future h ! 0;
            newFuture = drop 1 (future h)
        in \<lparr>past = past h @ [present h], present = next, future = newFuture\<rparr>)"

text \<open>What the user can do to the history: an update, undo, redo, or a new upload (reset).\<close>

datatype Action = SetChapters Updater bool | Undo | Redo | Reset

fun step :: "Action \<Rightarrow> World \<Rightarrow> World" where
  "step (SetChapters updater recordHistory) w = setChapters updater recordHistory w"
| "step Undo (\<sigma>, h) = (\<sigma>, handleUndo h)"
| "step Redo (\<sigma>, h) = (\<sigma>, handleRedo h)"
| "step Reset (\<sigma>, h) = (\<sigma>, initialHistory)"

fun run :: "Action list \<Rightarrow> World \<Rightarrow> World" where
  "run [] w = w"
| "run (a # as) w = run as (step a w)"

section \<open>Panel handlers of MangaToVideoPanel\<close>

text \<open>\<open>Array.prototype.findIndex\<close>: the first position that satisfies the test (\<open>-1\<close> is \<open>None\<close>).\<close>

fun findIndex :: "('a \<Rightarrow> bool) \<Rightarrow> 'a list \<Rightarrow> nat option" where
  "findIndex P [] = None"
| "findIndex P (x # xs) = (if P x then Some 0 else map_option Suc (findIndex P xs))"

text \<open>\<open>panels.map((p, i) => ({ ...p, index: i }))\<close>\<close>

definition reindex :: "Panel list \<Rightarrow> Panel list" where
  "reindex ps = map (\<lambda>(i, p). p\<lparr>index := i\<rparr>) (enumerate 0 ps)"

text \<open>
  \<open>stitchedPages.map(callback)\<close> where the callback returns the page object it was given
  (\<open>None\<close>: the reference is kept) or a new object (\<open>Some\<close>: it is allocated at the end of
  the store).
\<close>

fun mapPages :: "(Page \<Rightarrow> Page option) \<Rightarrow> Store \<Rightarrow> nat list \<Rightarrow> Store \<times> nat list" where
  "mapPages f \<sigma> [] = (\<sigma>, [])"
| "mapPages f \<sigma> (r # rs) =
     (case f (deref \<sigma> r) of
        None \<Rightarrow> (case mapPages f \<sigma> rs of (\<sigma>', rs') \<Rightarrow> (\<sigma>', r # rs'))
      | Some p' \<Rightarrow> (case mapPages f (\<sigma> @ [p']) rs of (\<sigma>', rs') \<Rightarrow> (\<sigma>', length \<sigma> # rs')))"

text \<open>\<open>prev.map(callback)\<close> over the chapters, the store threaded through the callbacks.\<close>

fun mapChapters ::
    "(Store \<Rightarrow> Chapter \<Rightarrow> Store \<times> Chapter) \<Rightarrow> Store \<Rightarrow> Chapter list \<Rightarrow> Store \<times> Chapter list" where
  "mapChapters g \<sigma> [] = (\<sigma>, [])"
| "mapChapters g \<sigma> (ch # chs) =
     (case g \<sigma> ch of (\<sigma>1, ch') \<Rightarrow>
       (case mapChapters g \<sigma>1 chs of (\<sigma>2, chs') \<Rightarrow> (\<sigma>2, ch' # chs')))"

definition deletePanelUpdater :: "string \<Rightarrow> string \<Rightarrow> string \<Rightarrow> Updater" where
  "deletePanelUpdater chapterId pageId panelId \<sigma> prev =
     mapChapters (\<lambda>\<sigma> ch.
        if ch_id ch \<noteq> chapterId then (\<sigma>, ch)
        else
          (case mapPages (\<lambda>p.
                  if stitch_id p \<noteq> pageId then None
                  else Some (p\<lparr>panels :=
                    reindex (filter (\<lambda>panelItem. panel_id panelItem \<noteq> panelId) (panels p))\<rparr>))
                \<sigma> (stitchedPages ch)
           of (\<sigma>', newPages) \<Rightarrow> (\<sigma>', ch\<lparr>stitchedPages := newPages\<rparr>)))
       \<sigma> prev"

definition handleDeletePanel :: "string \<Rightarrow> string \<Rightarrow> string \<Rightarrow> World \<Rightarrow> World" where
  "handleDeletePanel chapterId pageId panelId =
     setChapters (deletePanelUpdater chapterId pageId panelId) True"

text \<open>
  \<open>handleSplitPanel\<close>, its history-tracked update. \<open>now_a\<close> and \<open>now_b\<close> are the two readings
  of \<open>Date.now()\<close> in decimal. \<open>newChapters = [...prev]\<close> copies the array of chapter
  objects, and the assignment to \<open>newChapters[chIndex].stitchedPages[pageIndex].panels\<close>
  writes the page object that \<open>prev\<close> references too: the store cell is updated and the
  returned array is, as a value, \<open>prev\<close>. (The thumbnails are written later by a second
  update that records no history and changes no geometry; it is not modelled.)
\<close>

definition splitPanelUpdater :: "string \<Rightarrow> string \<Rightarrow> rat \<Rightarrow> string \<Rightarrow> string \<Rightarrow> Updater" where
  "splitPanelUpdater pageId panelId splitY_norm now_a now_b \<sigma> prev =
     (let newChapters = prev in
      case findIndex (\<lambda>ch. list_ex (\<lambda>r. stitch_id (deref \<sigma> r) = pageId) (stitchedPages ch))
             newChapters of
        None \<Rightarrow> (\<sigma>, prev)
      | Some chIndex \<Rightarrow>
        (case findIndex (\<lambda>r. stitch_id (deref \<sigma> r) = pageId)
                (stitchedPages (newChapters ! chIndex)) of
           None \<Rightarrow> (\<sigma>, prev)
         | Some pageIndex \<Rightarrow>
           (let pageRef = stitchedPages (newChapters ! chIndex) ! pageIndex;
                pageForCropping = deref \<sigma> pageRef
            in case findIndex (\<lambda>p. panel_id p = panelId) (panels pageForCropping) of
                 None \<Rightarrow> (\<sigma>, prev)
               | Some panelIndex \<Rightarrow>
                 (let originalPanel = panels pageForCropping ! panelIndex
                  in case coordinates originalPanel of (x, y, w, h) \<Rightarrow>
                    if splitY_norm \<le> y \<or> splitY_norm \<ge> y + h then (\<sigma>, prev)
                    else
                      let topPanelHeight = splitY_norm - y;
                          bottomPanelHeight = (y + h) - splitY_norm;
                          topPanel = originalPanel
                            \<lparr>panel_id := ''panel-'' @ pageId @ ''-'' @ now_a @ ''-a'',
                             coordinates := (x, y, w, topPanelHeight),
                             recap_texts := Some [], croppedImageBase64 := None,
                             audioInfos := [], status := Pending\<rparr>;
                          bottomPanel = originalPanel
                            \<lparr>panel_id := ''panel-'' @ pageId @ ''-'' @ now_b @ ''-b'',
                             coordinates := (x, splitY_norm, w, bottomPanelHeight),
                             recap_texts := Some [], croppedImageBase64 := None,
                             audioInfos := [], status := Pending\<rparr>;
                          newPanels = take panelIndex (panels pageForCropping)
                                      @ [topPanel, bottomPanel]
                                      @ drop (panelIndex + 1) (panels pageForCropping)
                      in (\<sigma>[pageRef := pageForCropping\<lparr>panels := reindex newPanels\<rparr>],
                          newChapters)))))"

definition handleSplitPanel ::
    "string \<Rightarrow> string \<Rightarrow> rat \<Rightarrow> string \<Rightarrow> string \<Rightarrow> World \<Rightarrow> World" where
  "handleSplitPanel pageId panelId splitY_norm now_a now_b =
     setChapters (splitPanelUpdater pageId panelId splitY_norm now_a now_b) True"

datatype Direction = Top | Bottom

text \<open>The callback of \<open>page.panels.map\<close> in \<open>handleCropPanel\<close>, for the panel that matches.\<close>

definition cropPanel :: "rat \<Rightarrow> Direction \<Rightarrow> Panel \<Rightarrow> Panel" where
  "cropPanel clamped_cropY_norm direction panel =
     (case coordinates panel of (x, y, w, h) \<Rightarrow>
        (case direction of
           Top \<Rightarrow>
             (let originalBottom = y + h;
                  newY = clamped_cropY_norm;
                  newH = originalBottom - newY
              in if newH > 5 / 1000
                 then panel\<lparr>coordinates := (x, newY, w, newH), croppedImageBase64 := None\<rparr>
                 else panel)
         | Bottom \<Rightarrow>
             (let newH = clamped_cropY_norm - y
              in if newH > 5 / 1000
                 then panel\<lparr>coordinates := (x, y, w, newH), croppedImageBase64 := None\<rparr>
                 else panel)))"

definition cropPanelUpdater :: "string \<Rightarrow> string \<Rightarrow> rat \<Rightarrow> Direction \<Rightarrow> Updater" where
  "cropPanelUpdater pageId panelId cropY_norm direction \<sigma> prev =
     (let clamped_cropY_norm = max 0 (min 1 cropY_norm) in
      mapChapters (\<lambda>\<sigma> ch.
          (case mapPages (\<lambda>page.
                  if stitch_id page \<noteq> pageId then None
                  else Some (page\<lparr>panels :=
                    map (\<lambda>panel. if panel_id panel \<noteq> panelId then panel
                                  else cropPanel clamped_cropY_norm direction panel)
                        (panels page)\<rparr>))
                \<sigma> (stitchedPages ch)
           of (\<sigma>', newPages) \<Rightarrow> (\<sigma>', ch\<lparr>stitchedPages := newPages\<rparr>)))
        \<sigma> prev)"

definition handleCropPanel :: "string \<Rightarrow> string \<Rightarrow> rat \<Rightarrow> Direction \<Rightarrow> World \<Rightarrow> World" where
  "handleCropPanel pageId panelId cropY_norm direction =
     setChapters (cropPanelUpdater pageId panelId cropY_norm direction) True"

text \<open>\<open>handleDuplicatePanel\<close>; \<open>now\<close> is \<open>Date.now()\<close> in decimal.\<close>

definition duplicatePanelUpdater :: "string \<Rightarrow> string \<Rightarrow> string \<Rightarrow> string \<Rightarrow> Updater" where
  "duplicatePanelUpdater chapterId pageId panelId now \<sigma> prev =
     mapChapters (\<lambda>\<sigma> ch.
        if ch_id ch \<noteq> chapterId then (\<sigma>, ch)
        else
          (case mapPages (\<lambda>p.
                  if stitch_id p \<noteq> pageId then None
                  else
                    (case findIndex (\<lambda>panelItem. panel_id panelItem = panelId) (panels p) of
                       None \<Rightarrow> None
                     | Some panelIndex \<Rightarrow>
                         (let panelToDuplicate = panels p ! panelIndex;
                              newPanel = panelToDuplicate
                                \<lparr>panel_id := ''panel-'' @ pageId @ ''-'' @ now,
                                 recap_texts := Some [], audioInfos := [], status := Pending\<rparr>;
                              newPanels = take (panelIndex + 1) (panels p) @ [newPanel]
                                          @ drop (panelIndex + 1) (panels p)
                          in Some (p\<lparr>panels := reindex newPanels\<rparr>))))
                \<sigma> (stitchedPages ch)
           of (\<sigma>', newPages) \<Rightarrow> (\<sigma>', ch\<lparr>stitchedPages := newPages\<rparr>)))
       \<sigma> prev"

definition handleDuplicatePanel :: "string \<Rightarrow> string \<Rightarrow> string \<Rightarrow> string \<Rightarrow> World \<Rightarrow> World" where
  "handleDuplicatePanel chapterId pageId panelId now =
     setChapters (duplicatePanelUpdater chapterId pageId panelId now) True"

section \<open>History bound\<close>

lemma setChapters_bound:
  "length (past (snd w)) + length (future (snd w)) \<le> 50 \<Longrightarrow>
   length (past (snd (setChapters u b w))) + length (future (snd (setChapters u b w))) \<le> 50"
  by (cases w) (auto simp: setChapters_def Let_def split: prod.splits)

lemma handleUndo_bound:
  "length (past (handleUndo h)) + length (future (handleUndo h)) = length (past h) + length (future h)"
  by (cases "past h") (auto simp: handleUndo_def Let_def)

lemma handleRedo_bound:
  "length (past (handleRedo h)) + length (future (handleRedo h)) = length (past h) + length (future h)"
  by (cases "future h") (auto simp: handleRedo_def Let_def)

lemma step_bound:
  "length (past (snd w)) + length (future (snd w)) \<le> 50 \<Longrightarrow>
   length (past (snd (step a w))) + length (future (snd (step a w))) \<le> 50"
proof (cases a)
  case (SetChapters u b)
  assume "length (past (snd w)) + length (future (snd w)) \<le> 50"
  then show ?thesis using SetChapters setChapters_bound by simp
next
  case Undo
  assume "length (past (snd w)) + length (future (snd w)) \<le> 50"
  then show ?thesis using Undo handleUndo_bound [of "snd w"] by (cases w) simp
next
  case Redo
  assume "length (past (snd w)) + length (future (snd w)) \<le> 50"
  then show ?thesis using Redo handleRedo_bound [of "snd w"] by (cases w) simp
next
  case Reset
  then show ?thesis by (cases w) (simp add: initialHistory_def)
qed

lemma run_bound:
  "length (past (snd w)) + length (future (snd w)) \<le> 50 \<Longrightarrow>
   length (past (snd (run as w))) + length (future (snd (run as w))) \<le> 50"
  by (induction as arbitrary: w) (simp_all add: step_bound)

text \<open>
  C10. Starting from the empty history, whatever updates, undos, redos and uploads are
  performed, \<open>past\<close> never holds more than 50 snapshots; and an update that is recorded
  while 50 snapshots are stored drops the oldest one and appends the state it replaces,
  so the 50 most recent recorded states are the ones undo can reach.
\<close>

theorem C10_past_at_most_50:
  "length (past (snd (run as (\<sigma>0, initialHistory)))) \<le> 50 \<and>
   (length (past h) = 50 \<and>
    stringify (fst (u \<sigma> (present h))) (snd (u \<sigma> (present h))) \<noteq>
      stringify (fst (u \<sigma> (present h))) (present h) \<longrightarrow>
    past (snd (setChapters u True (\<sigma>, h))) = tl (past h) @ [present h] \<and>
    length (past (snd (setChapters u True (\<sigma>, h)))) = 50)"
proof
  have "length (past (snd (\<sigma>0, initialHistory))) + length (future (snd (\<sigma>0, initialHistory))) \<le> 50"
    by (simp add: initialHistory_def)
  from run_bound [OF this, of as]
  show "length (past (snd (run as (\<sigma>0, initialHistory)))) \<le> 50"
    by simp
next
  show "length (past h) = 50 \<and>
    stringify (fst (u \<sigma> (present h))) (snd (u \<sigma> (present h))) \<noteq>
      stringify (fst (u \<sigma> (present h))) (present h) \<longrightarrow>
    past (snd (setChapters u True (\<sigma>, h))) = tl (past h) @ [present h] \<and>
    length (past (snd (setChapters u True (\<sigma>, h)))) = 50"
    by (cases "past h") (auto simp: setChapters_def Let_def split: prod.splits)
qed

definition emptyChapter :: "string \<Rightarrow> Chapter" where
  "emptyChapter n =
     \<lparr>ch_id = n, ch_name = n, stitchedPages = [], ch_status = ChPending, ch_error = None\<rparr>"

theorem C10_past_at_most_50_witness:
  "length (past (snd (run [SetChapters (\<lambda>\<sigma> prev. (\<sigma>, [emptyChapter ''ch-0''])) True, Undo, Redo]
        ([], initialHistory)))) \<le> 50 \<and>
   past (snd (setChapters (\<lambda>\<sigma> prev. (\<sigma>, [emptyChapter ''ch-0''])) True
        ([], \<lparr>past = replicate 50 [], present = [], future = []\<rparr>)))
     = tl (replicate 50 []) @ [[]] \<and>
   length (past (snd (setChapters (\<lambda>\<sigma> prev. (\<sigma>, [emptyChapter ''ch-0''])) True
        ([], \<lparr>past = replicate 50 [], present = [], future = []\<rparr>)))) = 50"
  using C10_past_at_most_50 [of "[SetChapters (\<lambda>\<sigma> prev. (\<sigma>, [emptyChapter ''ch-0''])) True, Undo, Redo]"
      "[]" "\<lparr>past = replicate 50 [], present = [], future = []\<rparr>"
      "\<lambda>\<sigma> prev. (\<sigma>, [emptyChapter ''ch-0''])" "[]"]
  by (simp add: stringify_def)

section \<open>Pages reachable from a state\<close>

definition pagesOf :: "Store \<Rightarrow> Chapter list \<Rightarrow> Page list" where
  "pagesOf \<sigma> chs = concat (map (\<lambda>ch. map (deref \<sigma>) (stitchedPages ch)) chs)"

text \<open>Every page reference of the state points into the store.\<close>

definition wellFormed :: "Store \<Rightarrow> Chapter list \<Rightarrow> bool" where
  "wellFormed \<sigma> chs = list_all (\<lambda>ch. list_all (\<lambda>r. r < length \<sigma>) (stitchedPages ch)) chs"

section \<open>Example data\<close>

definition examplePanel :: "string \<Rightarrow> nat \<Rightarrow> CoordinatesArray \<Rightarrow> Panel" where
  "examplePanel pid i c =
     \<lparr>coordinates = c, recap_texts = None, confidence = 8 / 10, narration_tone = None,
      key_action_description = None, dialogue_summary = None, flags = None,
      croppedImageBase64 = None, audioInfos = [], status = Pending,
      panel_id = pid, index = i\<rparr>"

definition examplePage :: "string \<Rightarrow> string \<Rightarrow> Panel list \<Rightarrow> Page" where
  "examplePage sid cid ps =
     \<lparr>stitch_id = sid, chapter_id = cid, image_width = 800, image_height = 1200,
      stitchedFileName = sid, panels = ps\<rparr>"

text \<open>
  One chapter of two pages: page A with two half-page panels, page B with one panel that
  covers it.
\<close>

definition exampleWorld :: World where
  "exampleWorld =
     ([examplePage ''page-A'' ''ch-0''
         [examplePanel ''a0'' 0 (0, 0, 1, 1 / 2), examplePanel ''a1'' 1 (0, 1 / 2, 1, 1 / 2)],
       examplePage ''page-B'' ''ch-0'' [examplePanel ''b0'' 0 (0, 0, 1, 1)]],
      \<lparr>past = [],
       present = [\<lparr>ch_id = ''ch-0'', ch_name = ''Chapter 1'', stitchedPages = [0, 1],
                   ch_status = Processed, ch_error = None\<rparr>],
       future = []\<rparr>)"

section \<open>Undo after a split\<close>

text \<open>
  C2. Undo immediately after a recorded edit should restore the state before that edit.
  Here a panel of page A is deleted (edit 1, recorded) and then the panel of page B is
  split at its middle (edit 2, requested with \<open>recordHistory = true\<close>). The split writes the
  page object in place, so the state it returns serialises like the present state and no
  snapshot is pushed: the split changed the pages, \<open>past\<close> is what it was, and undo leads
  to a state that is not the one before the split (page B is still split and the
  deletion on page A is gone).
\<close>

theorem C2_split_is_not_recorded:
  "(let w1 = handleDeletePanel ''ch-0'' ''page-A'' ''a1'' exampleWorld;
        w2 = handleSplitPanel ''page-B'' ''b0'' (1 / 2) ''1700000000000'' ''1700000000000'' w1;
        w3 = (fst w2, handleUndo (snd w2))
    in stringify (fst w2) (present (snd w2)) \<noteq> stringify (fst w1) (present (snd w1))
       \<and> past (snd w2) = past (snd w1)
       \<and> stringify (fst w3) (present (snd w3)) \<noteq> stringify (fst w1) (present (snd w1))
       \<and> map (map coordinates \<circ> panels) (pagesOf (fst w3) (present (snd w3)))
           = [[(0, 0, 1, 1 / 2), (0, 1 / 2, 1, 1 / 2)], [(0, 0, 1, 1 / 2), (0, 1 / 2, 1, 1 / 2)]])"
  by code_simp

section \<open>Panel indices\<close>

definition indicesContiguous :: "Panel list \<Rightarrow> bool" where
  "indicesContiguous ps = (map index ps = [0..<length ps])"

definition allIndicesContiguous :: "World \<Rightarrow> bool" where
  "allIndicesContiguous w =
     list_all (\<lambda>p. indicesContiguous (panels p)) (pagesOf (fst w) (present (snd w)))"

text \<open>A number in a template string: its decimal digits.\<close>

fun decimal :: "nat \<Rightarrow> string" where
  "decimal n =
     (if n < 10 then [char_of (48 + n)]
      else decimal (n div 10) @ [char_of (48 + n mod 10)])"

declare decimal.simps [simp del]

text \<open>
  \<open>handleDetectPanels\<close>: the panels a page receives from the detector's result,
  \<open>detectedRawPanels.map((p, panelIndex) => ({ ...p, index: panelIndex, audioInfos: {},
  status: 'pending', panel_id: p.panel_id || `panel-${page.stitch_id}-${panelIndex}` }))\<close>.
\<close>

definition newPanelsOfDetection :: "string \<Rightarrow> PanelWithId list \<Rightarrow> Panel list" where
  "newPanelsOfDetection stitchId detectedRawPanels =
     map (\<lambda>(panelIndex, p).
            PanelWithId.extend
              (p\<lparr>audioInfos := [], status := Pending,
                 panel_id := (if panel_id p \<noteq> [] then panel_id p
                              else ''panel-'' @ stitchId @ ''-'' @ decimal panelIndex)\<rparr>)
              (Panel.fields panelIndex))
         (enumerate 0 detectedRawPanels)"

text \<open>
  Modelled from the spec: "Merge with Next" has no implementation in the sources (the
  editor offers split, crop, duplicate and delete only). The spec's words: it
  "concatenates the narrative text (all languages) of a panel with its immediate
  successor; does not change geometry; the successor panel is then removed and remaining
  panels re-indexed", and \<open>{"en":"Hello"}\<close> merged with \<open>{"en":"world"}\<close> is
  \<open>{"en":"Hello world"}\<close>: the two texts of a language are joined by one space. A language
  that only one of the two panels has keeps its text. A panel that is not on the page, or
  has no successor there, leaves the page as it is.
\<close>

definition mergeTexts ::
    "(string \<times> string) list option \<Rightarrow> (string \<times> string) list option
      \<Rightarrow> (string \<times> string) list option" where
  "mergeTexts a b =
     (let ta = (case a of None \<Rightarrow> [] | Some t \<Rightarrow> t);
          tb = (case b of None \<Rightarrow> [] | Some t \<Rightarrow> t)
      in Some (map (\<lambda>(l, s). (l, case map_of tb l of None \<Rightarrow> s | Some t \<Rightarrow> s @ '' '' @ t)) ta
               @ filter (\<lambda>(l, t). map_of ta l = None) tb))"

definition mergeWithNext :: "string \<Rightarrow> Panel list \<Rightarrow> Panel list" where
  "mergeWithNext panelId ps =
     (case findIndex (\<lambda>p. panel_id p = panelId) ps of
        None \<Rightarrow> ps
      | Some i \<Rightarrow>
          if Suc i < length ps
          then reindex (take i ps
                 @ [(ps ! i)\<lparr>recap_texts := mergeTexts (recap_texts (ps ! i)) (recap_texts (ps ! Suc i))\<rparr>]
                 @ drop (i + 2) ps)
          else ps)"

subsection \<open>Re-indexing\<close>

lemma map_index_reindex: "map index (reindex ps) = [0..<length ps]"
proof -
  have h: "index \<circ> (\<lambda>(i, p). p\<lparr>index := i\<rparr>) = fst"
    by (auto simp: fun_eq_iff)
  have "map index (reindex ps) = map (index \<circ> (\<lambda>(i, p). p\<lparr>index := i\<rparr>)) (enumerate 0 ps)"
    by (simp only: reindex_def map_map)
  also have "\<dots> = map fst (enumerate 0 ps)"
    by (simp only: h)
  also have "\<dots> = [0..<length ps]"
    by (simp add: map_fst_enumerate)
  finally show ?thesis .
qed

lemma length_reindex: "length (reindex ps) = length ps"
  by (simp add: reindex_def)

lemma indicesContiguous_reindex: "indicesContiguous (reindex ps)"
  by (simp add: indicesContiguous_def map_index_reindex length_reindex)

lemma map_coordinates_reindex: "map coordinates (reindex ps) = map coordinates ps"
proof -
  have h: "coordinates \<circ> (\<lambda>(i, p). p\<lparr>index := i\<rparr>) = coordinates \<circ> snd"
    by (auto simp: fun_eq_iff)
  have "map coordinates (reindex ps)
        = map (coordinates \<circ> (\<lambda>(i, p). p\<lparr>index := i\<rparr>)) (enumerate 0 ps)"
    by (simp only: reindex_def map_map)
  also have "\<dots> = map coordinates (map snd (enumerate 0 ps))"
    by (simp only: h map_map)
  also have "\<dots> = map coordinates ps"
    by simp
  finally show ?thesis .
qed

lemma indicesContiguous_newPanelsOfDetection:
  "indicesContiguous (newPanelsOfDetection stitchId detected)"
proof -
  have h: "index \<circ> (\<lambda>(panelIndex, p).
            PanelWithId.extend
              (p\<lparr>audioInfos := [], status := Pending,
                 panel_id := (if panel_id p \<noteq> [] then panel_id p
                              else ''panel-'' @ stitchId @ ''-'' @ decimal panelIndex)\<rparr>)
              (Panel.fields panelIndex)) = fst"
    by (auto simp: fun_eq_iff PanelWithId.defs Panel.defs)
  have "map index (newPanelsOfDetection stitchId detected) = map fst (enumerate 0 detected)"
    unfolding newPanelsOfDetection_def map_map h ..
  then show ?thesis
    by (simp add: indicesContiguous_def newPanelsOfDetection_def map_fst_enumerate)
qed

lemma indicesContiguous_mergeWithNext:
  "indicesContiguous ps \<Longrightarrow> indicesContiguous (mergeWithNext panelId ps)"
  by (simp add: mergeWithNext_def indicesContiguous_reindex split: option.splits)

subsection \<open>Traversals allocate and keep what was there\<close>

lemma deref_append: "r < length \<sigma> \<Longrightarrow> deref (\<sigma> @ ext) r = deref \<sigma> r"
  by (simp add: deref_def nth_append)

lemma mapPages_inv:
  assumes "list_all (\<lambda>r. r < length \<sigma>) rs"
      and "mapPages f \<sigma> rs = (\<sigma>', rs')"
      and "list_all P (map (deref \<sigma>) rs)"
      and "\<And>p p'. P p \<Longrightarrow> f p = Some p' \<Longrightarrow> P p'"
  shows "(\<exists>ext. \<sigma>' = \<sigma> @ ext) \<and> list_all (\<lambda>r. r < length \<sigma>') rs'
         \<and> list_all P (map (deref \<sigma>') rs')"
  using assms(1,2,3)
proof (induction rs arbitrary: \<sigma> \<sigma>' rs')
  case Nil
  then show ?case by simp
next
  case (Cons r rs)
  show ?case
  proof (cases "f (deref \<sigma> r)")
    case None
    obtain \<sigma>1 rs1 where m: "mapPages f \<sigma> rs = (\<sigma>1, rs1)" by (cases "mapPages f \<sigma> rs")
    with None Cons.prems have eq: "\<sigma>' = \<sigma>1" "rs' = r # rs1" by auto
    from Cons.IH [OF _ m] Cons.prems
    obtain ext where ih: "\<sigma>1 = \<sigma> @ ext" "list_all (\<lambda>r. r < length \<sigma>1) rs1"
        "list_all P (map (deref \<sigma>1) rs1)" by auto
    from Cons.prems have "r < length \<sigma>" "P (deref \<sigma> r)" by auto
    with ih eq show ?thesis by (auto simp: deref_append)
  next
    case (Some p')
    obtain \<sigma>1 rs1 where m: "mapPages f (\<sigma> @ [p']) rs = (\<sigma>1, rs1)"
      by (cases "mapPages f (\<sigma> @ [p']) rs")
    with Some Cons.prems have eq: "\<sigma>' = \<sigma>1" "rs' = length \<sigma> # rs1" by auto
    from Cons.prems have r: "r < length \<sigma>" "P (deref \<sigma> r)" by auto
    have 1: "list_all (\<lambda>r. r < length (\<sigma> @ [p'])) rs"
      using Cons.prems(1) by (auto simp: list_all_iff)
    have 2: "list_all P (map (deref (\<sigma> @ [p'])) rs)"
      using Cons.prems(1,3) by (auto simp: list_all_iff deref_append)
    from Cons.IH [OF 1 m 2]
    obtain ext where ih: "\<sigma>1 = (\<sigma> @ [p']) @ ext" "list_all (\<lambda>r. r < length \<sigma>1) rs1"
        "list_all P (map (deref \<sigma>1) rs1)" by auto
    have "P p'" using assms(4) [OF r(2) Some] .
    moreover have "deref \<sigma>1 (length \<sigma>) = p'" using ih(1) by (simp add: deref_def nth_append)
    ultimately show ?thesis using ih eq by auto
  qed
qed

lemma pagesOf_append: "wellFormed \<sigma> chs \<Longrightarrow> pagesOf (\<sigma> @ ext) chs = pagesOf \<sigma> chs"
  by (induction chs) (auto simp: pagesOf_def wellFormed_def list_all_iff deref_append)

lemma wellFormed_append: "wellFormed \<sigma> chs \<Longrightarrow> wellFormed (\<sigma> @ ext) chs"
  by (force simp: wellFormed_def list_all_iff)

lemma mapChapters_inv:
  assumes g: "\<And>\<sigma> ch \<sigma>1 ch'. g \<sigma> ch = (\<sigma>1, ch') \<Longrightarrow>
              list_all (\<lambda>r. r < length \<sigma>) (stitchedPages ch) \<Longrightarrow>
              list_all P (map (deref \<sigma>) (stitchedPages ch)) \<Longrightarrow>
              (\<exists>ext. \<sigma>1 = \<sigma> @ ext) \<and> list_all (\<lambda>r. r < length \<sigma>1) (stitchedPages ch')
              \<and> list_all P (map (deref \<sigma>1) (stitchedPages ch'))"
      and "wellFormed \<sigma> chs" and "list_all P (pagesOf \<sigma> chs)"
      and "mapChapters g \<sigma> chs = (\<sigma>', chs')"
  shows "(\<exists>ext. \<sigma>' = \<sigma> @ ext) \<and> wellFormed \<sigma>' chs' \<and> list_all P (pagesOf \<sigma>' chs')"
  using assms(2,3,4)
proof (induction chs arbitrary: \<sigma> \<sigma>' chs')
  case Nil
  then show ?case by (simp add: wellFormed_def pagesOf_def)
next
  case (Cons ch chs)
  obtain \<sigma>1 ch1 where g1: "g \<sigma> ch = (\<sigma>1, ch1)" by (cases "g \<sigma> ch")
  obtain \<sigma>2 chs2 where m: "mapChapters g \<sigma>1 chs = (\<sigma>2, chs2)" by (cases "mapChapters g \<sigma>1 chs")
  from g1 m Cons.prems have eq: "\<sigma>' = \<sigma>2" "chs' = ch1 # chs2" by auto
  from Cons.prems have wf: "list_all (\<lambda>r. r < length \<sigma>) (stitchedPages ch)" "wellFormed \<sigma> chs"
    and inv: "list_all P (map (deref \<sigma>) (stitchedPages ch))" "list_all P (pagesOf \<sigma> chs)"
    by (auto simp: wellFormed_def pagesOf_def)
  from g [OF g1 wf(1) inv(1)]
  obtain ext1 where s1: "\<sigma>1 = \<sigma> @ ext1" "list_all (\<lambda>r. r < length \<sigma>1) (stitchedPages ch1)"
      "list_all P (map (deref \<sigma>1) (stitchedPages ch1))" by auto
  have wf1: "wellFormed \<sigma>1 chs" using wf(2) s1(1) by (simp add: wellFormed_append)
  have inv1: "list_all P (pagesOf \<sigma>1 chs)" using inv(2) wf(2) s1(1) by (simp add: pagesOf_append)
  from Cons.IH [OF wf1 inv1 m]
  obtain ext2 where s2: "\<sigma>2 = \<sigma>1 @ ext2" "wellFormed \<sigma>2 chs2" "list_all P (pagesOf \<sigma>2 chs2)"
    by auto
  have "list_all (\<lambda>r. r < length \<sigma>2) (stitchedPages ch1)"
    using s1(2) s2(1) by (auto simp: list_all_iff)
  moreover have meq: "map (deref \<sigma>2) (stitchedPages ch1) = map (deref \<sigma>1) (stitchedPages ch1)"
    using s1(2) s2(1) by (auto simp: list_all_iff deref_append)
  have "list_all P (map (deref \<sigma>2) (stitchedPages ch1))"
    unfolding meq by (rule s1(3))
  moreover have "\<exists>ext. \<sigma>2 = \<sigma> @ ext" using s1(1) s2(1) by simp
  ultimately show ?case using s2(2,3) eq by (simp add: wellFormed_def pagesOf_def)
qed

text \<open>The shape the pure handlers share: some chapters skipped, the pages of the others mapped.\<close>

lemma mapChapters_mapPages_inv:
  assumes f: "\<And>p p'. P p \<Longrightarrow> f p = Some p' \<Longrightarrow> P p'"
      and "wellFormed \<sigma> chs" and "list_all P (pagesOf \<sigma> chs)"
      and "mapChapters (\<lambda>\<sigma> ch. if skip ch then (\<sigma>, ch)
              else (case mapPages f \<sigma> (stitchedPages ch) of
                      (\<sigma>', newPages) \<Rightarrow> (\<sigma>', ch\<lparr>stitchedPages := newPages\<rparr>))) \<sigma> chs = (\<sigma>', chs')"
  shows "wellFormed \<sigma>' chs' \<and> list_all P (pagesOf \<sigma>' chs')"
proof -
  let ?g = "\<lambda>\<sigma> ch. if skip ch then (\<sigma>, ch)
              else (case mapPages f \<sigma> (stitchedPages ch) of
                      (\<sigma>', newPages) \<Rightarrow> (\<sigma>', ch\<lparr>stitchedPages := newPages\<rparr>))"
  have g: "(\<exists>ext. \<sigma>1 = \<sigma> @ ext) \<and> list_all (\<lambda>r. r < length \<sigma>1) (stitchedPages ch')
              \<and> list_all P (map (deref \<sigma>1) (stitchedPages ch'))"
    if "?g \<sigma> ch = (\<sigma>1, ch')" "list_all (\<lambda>r. r < length \<sigma>) (stitchedPages ch)"
       "list_all P (map (deref \<sigma>) (stitchedPages ch))" for \<sigma> ch \<sigma>1 ch'
  proof (cases "skip ch")
    case True
    with that show ?thesis by auto
  next
    case False
    obtain \<sigma>2 rs2 where m: "mapPages f \<sigma> (stitchedPages ch) = (\<sigma>2, rs2)"
      by (cases "mapPages f \<sigma> (stitchedPages ch)")
    with False that(1) have eq: "\<sigma>1 = \<sigma>2" "stitchedPages ch' = rs2" by auto
    from mapPages_inv [OF that(2) m that(3) f] eq show ?thesis by simp
  qed
  from mapChapters_inv [of ?g P, OF g assms(2,3,4)] show ?thesis by simp
qed

subsection \<open>Each handler keeps the indices contiguous\<close>

lemma pagesOf_stringify:
  "pagesOf \<sigma> chs = concat (map (\<lambda>(a, b, ps, c, d). ps) (stringify \<sigma> chs))"
  by (simp add: pagesOf_def stringify_def stringifyChapter_def comp_def)

lemma setChapters_pages:
  assumes "u \<sigma> (present h) = (\<sigma>', new)" and "list_all P (pagesOf \<sigma>' new)"
  shows "list_all P (pagesOf (fst (setChapters u b (\<sigma>, h))) (present (snd (setChapters u b (\<sigma>, h)))))"
proof (cases "b \<and> stringify \<sigma>' new = stringify \<sigma>' (present h)")
  case True
  then have "pagesOf \<sigma>' (present h) = pagesOf \<sigma>' new"
    by (simp add: pagesOf_stringify)
  with True assms show ?thesis by (simp add: setChapters_def)
next
  case False
  with assms show ?thesis by (auto simp: setChapters_def Let_def)
qed

lemma deletePanelUpdater_inv:
  assumes "wellFormed \<sigma> prev" "list_all (\<lambda>p. indicesContiguous (panels p)) (pagesOf \<sigma> prev)"
      and "deletePanelUpdater chapterId pageId panelId \<sigma> prev = (\<sigma>', new)"
  shows "list_all (\<lambda>p. indicesContiguous (panels p)) (pagesOf \<sigma>' new)"
proof -
  have f: "indicesContiguous (panels p')"
    if "(if stitch_id p \<noteq> pageId then None
         else Some (p\<lparr>panels := reindex (filter (\<lambda>panelItem. panel_id panelItem \<noteq> panelId)
                 (panels p))\<rparr>)) = Some p'" for p p'
    using that by (auto simp: indicesContiguous_reindex split: if_splits)
  from mapChapters_mapPages_inv [where P = "\<lambda>p. indicesContiguous (panels p)",
      OF f assms(1,2) assms(3) [unfolded deletePanelUpdater_def]]
  show ?thesis by simp
qed

lemma duplicatePanelUpdater_inv:
  assumes "wellFormed \<sigma> prev" "list_all (\<lambda>p. indicesContiguous (panels p)) (pagesOf \<sigma> prev)"
      and "duplicatePanelUpdater chapterId pageId panelId now \<sigma> prev = (\<sigma>', new)"
  shows "list_all (\<lambda>p. indicesContiguous (panels p)) (pagesOf \<sigma>' new)"
proof -
  have f: "indicesContiguous (panels p')"
    if "(if stitch_id p \<noteq> pageId then None
         else (case findIndex (\<lambda>panelItem. panel_id panelItem = panelId) (panels p) of
                 None \<Rightarrow> None
               | Some panelIndex \<Rightarrow>
                   (let panelToDuplicate = panels p ! panelIndex;
                        newPanel = panelToDuplicate
                          \<lparr>panel_id := ''panel-'' @ pageId @ ''-'' @ now,
                           recap_texts := Some [], audioInfos := [], status := Pending\<rparr>;
                        newPanels = take (panelIndex + 1) (panels p) @ [newPanel]
                                    @ drop (panelIndex + 1) (panels p)
                    in Some (p\<lparr>panels := reindex newPanels\<rparr>)))) = Some p'" for p p'
    using that by (auto simp: indicesContiguous_reindex Let_def split: if_splits option.splits)
  from mapChapters_mapPages_inv [where P = "\<lambda>p. indicesContiguous (panels p)",
      OF f assms(1,2) assms(3) [unfolded duplicatePanelUpdater_def]]
  show ?thesis by simp
qed

lemma splitPanelUpdater_cases:
  "splitPanelUpdater pageId panelId s now_a now_b \<sigma> prev = (\<sigma>, prev) \<or>
   (\<exists>r ps. splitPanelUpdater pageId panelId s now_a now_b \<sigma> prev
            = (\<sigma>[r := (deref \<sigma> r)\<lparr>panels := reindex ps\<rparr>], prev))"
  by (auto simp: splitPanelUpdater_def Let_def split: option.splits prod.splits)

lemma pagesOf_update:
  assumes "list_all P (pagesOf \<sigma> chs)" and "P p'"
  shows "list_all P (pagesOf (\<sigma>[r := p']) chs)"
proof (cases "r < length \<sigma>")
  case True
  with assms show ?thesis
    by (auto simp: pagesOf_def list_all_iff deref_def nth_list_update)
next
  case False
  with assms show ?thesis by (simp add: list_update_beyond not_less)
qed

lemma splitPanelUpdater_inv:
  assumes "list_all (\<lambda>p. indicesContiguous (panels p)) (pagesOf \<sigma> prev)"
      and "splitPanelUpdater pageId panelId s now_a now_b \<sigma> prev = (\<sigma>', new)"
  shows "list_all (\<lambda>p. indicesContiguous (panels p)) (pagesOf \<sigma>' new)"
  using splitPanelUpdater_cases [of pageId panelId s now_a now_b \<sigma> prev] assms
  by (auto simp: indicesContiguous_reindex intro!: pagesOf_update)

text \<open>
  C3. The index fields of a page's panels are the positions \<open>0, 1, ..., n - 1\<close>, in list
  order: the panels a page receives from detection are numbered so; deleting a panel,
  splitting one and duplicating one (an insertion after the original) leave every page of
  the state numbered so; and so does the merge of a panel with its successor.
\<close>

theorem C3_indices_contiguous:
  "indicesContiguous (newPanelsOfDetection stitchId detected) \<and>
   (wellFormed \<sigma> (present h) \<and> allIndicesContiguous (\<sigma>, h) \<longrightarrow>
      allIndicesContiguous (handleDeletePanel chapterId pageId panelId (\<sigma>, h)) \<and>
      allIndicesContiguous (handleSplitPanel pageId panelId s now_a now_b (\<sigma>, h)) \<and>
      allIndicesContiguous (handleDuplicatePanel chapterId pageId panelId now (\<sigma>, h))) \<and>
   (indicesContiguous ps \<longrightarrow> indicesContiguous (mergeWithNext panelId ps))"
proof (intro conjI impI)
  show "indicesContiguous (newPanelsOfDetection stitchId detected)"
    by (rule indicesContiguous_newPanelsOfDetection)
next
  assume a: "wellFormed \<sigma> (present h) \<and> allIndicesContiguous (\<sigma>, h)"
  obtain \<sigma>' new where u: "deletePanelUpdater chapterId pageId panelId \<sigma> (present h) = (\<sigma>', new)"
    by (cases "deletePanelUpdater chapterId pageId panelId \<sigma> (present h)")
  from a deletePanelUpdater_inv [OF _ _ u]
  have "list_all (\<lambda>p. indicesContiguous (panels p)) (pagesOf \<sigma>' new)"
    by (simp add: allIndicesContiguous_def)
  from setChapters_pages [where u = "deletePanelUpdater chapterId pageId panelId" and \<sigma> = \<sigma>
      and h = h, OF u this]
  show "allIndicesContiguous (handleDeletePanel chapterId pageId panelId (\<sigma>, h))"
    by (simp add: allIndicesContiguous_def handleDeletePanel_def)
next
  assume a: "wellFormed \<sigma> (present h) \<and> allIndicesContiguous (\<sigma>, h)"
  obtain \<sigma>' new where u: "splitPanelUpdater pageId panelId s now_a now_b \<sigma> (present h) = (\<sigma>', new)"
    by (cases "splitPanelUpdater pageId panelId s now_a now_b \<sigma> (present h)")
  from a splitPanelUpdater_inv [OF _ u]
  have "list_all (\<lambda>p. indicesContiguous (panels p)) (pagesOf \<sigma>' new)"
    by (simp add: allIndicesContiguous_def)
  from setChapters_pages [where u = "splitPanelUpdater pageId panelId s now_a now_b" and \<sigma> = \<sigma>
      and h = h, OF u this]
  show "allIndicesContiguous (handleSplitPanel pageId panelId s now_a now_b (\<sigma>, h))"
    by (simp add: allIndicesContiguous_def handleSplitPanel_def)
next
  assume a: "wellFormed \<sigma> (present h) \<and> allIndicesContiguous (\<sigma>, h)"
  obtain \<sigma>' new where u: "duplicatePanelUpdater chapterId pageId panelId now \<sigma> (present h) = (\<sigma>', new)"
    by (cases "duplicatePanelUpdater chapterId pageId panelId now \<sigma> (present h)")
  from a duplicatePanelUpdater_inv [OF _ _ u]
  have "list_all (\<lambda>p. indicesContiguous (panels p)) (pagesOf \<sigma>' new)"
    by (simp add: allIndicesContiguous_def)
  from setChapters_pages [where u = "duplicatePanelUpdater chapterId pageId panelId now"
      and \<sigma> = \<sigma> and h = h, OF u this]
  show "allIndicesContiguous (handleDuplicatePanel chapterId pageId panelId now (\<sigma>, h))"
    by (simp add: allIndicesContiguous_def handleDuplicatePanel_def)
next
  assume "indicesContiguous ps"
  then show "indicesContiguous (mergeWithNext panelId ps)"
    by (rule indicesContiguous_mergeWithNext)
qed

theorem C3_indices_contiguous_witness:
  "indicesContiguous (newPanelsOfDetection ''page-A'' []) \<and>
   wellFormed (fst exampleWorld) (present (snd exampleWorld)) \<and>
   allIndicesContiguous exampleWorld \<and>
   allIndicesContiguous (handleDeletePanel ''ch-0'' ''page-A'' ''a0'' exampleWorld) \<and>
   allIndicesContiguous (handleSplitPanel ''page-A'' ''a0'' (1 / 4) ''17'' ''17'' exampleWorld) \<and>
   allIndicesContiguous (handleDuplicatePanel ''ch-0'' ''page-A'' ''a0'' ''17'' exampleWorld) \<and>
   indicesContiguous (panels (deref (fst exampleWorld) 0)) \<and>
   indicesContiguous (mergeWithNext ''a0'' (panels (deref (fst exampleWorld) 0)))"
proof -
  have wf: "wellFormed (fst exampleWorld) (present (snd exampleWorld))"
    by code_simp
  have inv: "allIndicesContiguous (fst exampleWorld, snd exampleWorld)"
    by code_simp
  have pre: "indicesContiguous (panels (deref (fst exampleWorld) 0))"
    by code_simp
  show ?thesis
    using wf inv pre
      C3_indices_contiguous [of "''page-A''" "[]" "fst exampleWorld" "snd exampleWorld"
        "''ch-0''" "''page-A''" "''a0''" "1 / 4" "''17''" "''17''" "''17''"
        "panels (deref (fst exampleWorld) 0)"]
    by simp
qed

section \<open>Geometry of a split\<close>








section \<open>Interactive editor surface (InteractiveMangaView)\<close>

datatype ActionType = NoAction | Drawing | Moving | Resizing

datatype ResizeHandle =
  HandleTL | HandleT | HandleTR | HandleL | HandleR | HandleBL | HandleB | HandleBR

text \<open>\<open>handle.includes('l')\<close> and its three siblings, on the handle names \<open>'tl'\<close> ... \<open>'br'\<close>.\<close>

fun includes_l :: "ResizeHandle \<Rightarrow> bool" where
  "includes_l HandleTL = True"
| "includes_l HandleL = True"
| "includes_l HandleBL = True"
| "includes_l _ = False"

fun includes_r :: "ResizeHandle \<Rightarrow> bool" where
  "includes_r HandleTR = True"
| "includes_r HandleR = True"
| "includes_r HandleBR = True"
| "includes_r _ = False"

fun includes_t :: "ResizeHandle \<Rightarrow> bool" where
  "includes_t HandleTL = True"
| "includes_t HandleT = True"
| "includes_t HandleTR = True"
| "includes_t _ = False"

fun includes_b :: "ResizeHandle \<Rightarrow> bool" where
  "includes_b HandleBL = True"
| "includes_b HandleB = True"
| "includes_b HandleBR = True"
| "includes_b _ = False"

record ActionState =
  as_type :: ActionType
  as_panelId :: "string option"
  as_handle :: "ResizeHandle option"
  as_startX :: rat
  as_startY :: rat
  as_originalCoords :: "CoordinatesArray option"

text \<open>
  \<open>getRelativeCoords\<close>: the pointer position relative to the container,
  \<open>((clientX - rect.left) / rect.width, (clientY - rect.top) / rect.height)\<close>, is the input;
  the function clamps it to the unit square.
\<close>

definition getRelativeCoords :: "rat \<times> rat \<Rightarrow> rat \<times> rat" where
  "getRelativeCoords e = (case e of (px, py) \<Rightarrow> (max 0 (min 1 px), max 0 (min 1 py)))"

text \<open>
  \<open>handleMouseMove\<close>: the result is the call \<open>onUpdatePanel(panelId, newCoords)\<close> it makes,
  if any. An empty \<open>panelId\<close> string is falsy, like a missing one.
\<close>

definition handleMouseMove :: "ActionState \<Rightarrow> rat \<times> rat \<Rightarrow> (string \<times> CoordinatesArray) option" where
  "handleMouseMove actionState e =
     (if as_type actionState = NoAction then None
      else
        case getRelativeCoords e of (currentX, currentY) \<Rightarrow>
          let startX = as_startX actionState; startY = as_startY actionState in
          if as_type actionState = Drawing then None
          else
            (case as_originalCoords actionState of
               None \<Rightarrow> None
             | Some (x, y, w, h) \<Rightarrow>
               (case as_panelId actionState of
                  None \<Rightarrow> None
                | Some panelId \<Rightarrow>
                    if panelId = [] then None
                    else if as_type actionState = Moving then
                      (let dx = currentX - startX;
                           dy = currentY - startY;
                           n0 = x + dx;
                           n1 = y + dy;
                           n0 = max 0 (min (1 - w) n0);
                           n1 = max 0 (min (1 - h) n1)
                       in Some (panelId, (n0, n1, w, h)))
                    else
                      (case as_handle actionState of
                         None \<Rightarrow> None
                       | Some handle \<Rightarrow>
                           (let dx = currentX - startX;
                                dy = currentY - startY;
                                (x, w) = (if includes_l handle then (x + dx, w - dx) else (x, w));
                                w = (if includes_r handle then w + dx else w);
                                (y, h) = (if includes_t handle then (y + dy, h - dy) else (y, h));
                                h = (if includes_b handle then h + dy else h);
                                (x, w) = (if w < 0 then (x + w, - w) else (x, w));
                                (y, h) = (if h < 0 then (y + h, - h) else (y, h))
                            in Some (panelId, (x, y, w, h)))))))"

text \<open>\<open>handleMouseUp\<close>: the call \<open>onAddPanel(newCoords)\<close> it makes, if any.\<close>

definition handleMouseUp :: "ActionState \<Rightarrow> rat \<times> rat \<Rightarrow> CoordinatesArray option" where
  "handleMouseUp actionState e =
     (if as_type actionState = Drawing then
        (case getRelativeCoords e of (endX, endY) \<Rightarrow>
           let startX = as_startX actionState; startY = as_startY actionState;
               newCoords = (min startX endX, min startY endY, \<bar>endX - startX\<bar>, \<bar>endY - startY\<bar>)
           in if \<bar>endX - startX\<bar> > 1 / 100 \<and> \<bar>endY - startY\<bar> > 1 / 100
              then Some newCoords else None)
      else None)"

text \<open>The rectangle invariant of a panel.\<close>

definition validRect :: "CoordinatesArray \<Rightarrow> bool" where
  "validRect c = (case c of (x, y, w, h) \<Rightarrow>
     0 \<le> x \<and> 0 \<le> y \<and> x + w \<le> 1 \<and> y + h \<le> 1 \<and> w > 0 \<and> h > 0)"

text \<open>
  C1. After an editing operation the rectangle of a panel should lie inside the page and
  have positive width and height. Resizing does not keep this. The panel
  \<open>(1/4, 1/4, 1/4, 1/4)\<close> is valid; dragging its right handle from \<open>x = 1/2\<close> to its left
  edge \<open>x = 1/4\<close> hands \<open>onUpdatePanel\<close> a rectangle of width 0; and grabbing the same
  handle a little left of the edge, at \<open>x = 31/64\<close>, and dragging to the right border of
  the page hands it a rectangle with \<open>x + w = 65/64\<close>.
\<close>

theorem C1_resize_not_clamped:
  "validRect (1 / 4, 1 / 4, 1 / 4, 1 / 4) \<and>
   handleMouseMove
     \<lparr>as_type = Resizing, as_panelId = Some ''p1'', as_handle = Some HandleR,
      as_startX = 1 / 2, as_startY = 3 / 8,
      as_originalCoords = Some (1 / 4, 1 / 4, 1 / 4, 1 / 4)\<rparr> (1 / 4, 3 / 8)
     = Some (''p1'', (1 / 4, 1 / 4, 0, 1 / 4)) \<and>
   \<not> validRect (1 / 4, 1 / 4, 0, 1 / 4) \<and>
   handleMouseMove
     \<lparr>as_type = Resizing, as_panelId = Some ''p1'', as_handle = Some HandleR,
      as_startX = 31 / 64, as_startY = 3 / 8,
      as_originalCoords = Some (1 / 4, 1 / 4, 1 / 4, 1 / 4)\<rparr> (1, 3 / 8)
     = Some (''p1'', (1 / 4, 1 / 4, 49 / 64, 1 / 4)) \<and>
   \<not> validRect (1 / 4, 1 / 4, 49 / 64, 1 / 4)"
  by (simp add: validRect_def handleMouseMove_def getRelativeCoords_def Let_def)

subsection \<open>The other edits keep the rectangle inside the page\<close>

lemma move_keeps_validRect:
  assumes "validRect c" and "as_type a = Moving" and "as_originalCoords a = Some c"
      and "handleMouseMove a e = Some (pid, c')"
  shows "validRect c'"
  using assms
  by (auto simp: validRect_def handleMouseMove_def getRelativeCoords_def Let_def
           split: prod.splits option.splits if_splits)

lemma draw_creates_validRect:
  assumes "0 \<le> as_startX a" "as_startX a \<le> 1" "0 \<le> as_startY a" "as_startY a \<le> 1"
      and "handleMouseUp a e = Some c"
  shows "validRect c"
  using assms
  by (auto simp: validRect_def handleMouseUp_def getRelativeCoords_def Let_def
                 min_def max_def abs_if
           split: prod.splits if_splits)

lemma cropPanel_keeps_validRect:
  assumes "validRect (coordinates panel)"
  shows "validRect (coordinates (cropPanel (max 0 (min 1 cropY_norm)) direction panel))"
  using assms
  by (cases direction)
     (auto simp: validRect_def cropPanel_def Let_def split: prod.splits)

section \<open>Merge with Next\<close>

lemma map_of_merged_left:
  "map_of (map (\<lambda>(l, s). (l, f l s)) ta) l = map_option (f l) (map_of ta l)"
  by (induction ta) auto

lemma map_of_only_right:
  "map_of (filter (\<lambda>(l, t). Q l) tb) l = (if Q l then map_of tb l else None)"
  by (induction tb) auto

lemma mergeTexts_lookup:
  "mergeTexts (Some ta) (Some tb) = Some tm \<Longrightarrow>
   map_of tm l =
     (case map_of ta l of
        Some s \<Rightarrow> (case map_of tb l of Some t \<Rightarrow> Some (s @ '' '' @ t) | None \<Rightarrow> Some s)
      | None \<Rightarrow> map_of tb l)"
proof -
  assume "mergeTexts (Some ta) (Some tb) = Some tm"
  then have tm: "tm = map (\<lambda>(l, s). (l, case map_of tb l of None \<Rightarrow> s | Some t \<Rightarrow> s @ '' '' @ t)) ta
                     @ filter (\<lambda>(l, t). map_of ta l = None) tb"
    by (simp add: mergeTexts_def)
  show ?thesis
    unfolding tm map_of_append
    by (simp add: map_add_def map_of_merged_left map_of_only_right
             split: option.splits)
qed

text \<open>
  C8. Let the panel \<open>panelId\<close> stand at position \<open>i\<close> of the page's panels and have a
  successor. Merging it with the next panel removes exactly the successor (one panel
  less, the identifiers and rectangles of all the others are kept, in order), leaves
  the merged panel's rectangle as it was, numbers the remaining panels \<open>0, 1, ...\<close>, and
  gives the merged panel, in every language, the two texts joined by a space (the one
  text, for a language only one of them had). \<open>{"en": "Hello"}\<close> and \<open>{"en": "world"}\<close>
  become \<open>{"en": "Hello world"}\<close>.
\<close>

theorem C8_merge_with_next:
  assumes "findIndex (\<lambda>p. panel_id p = panelId) ps = Some i"
      and "Suc i < length ps"
      and "recap_texts (ps ! i) = Some ta"
      and "recap_texts (ps ! Suc i) = Some tb"
  shows "length (mergeWithNext panelId ps) + 1 = length ps
       \<and> map panel_id (mergeWithNext panelId ps) = map panel_id (take (Suc i) ps @ drop (i + 2) ps)
       \<and> map coordinates (mergeWithNext panelId ps)
           = map coordinates (take (Suc i) ps @ drop (i + 2) ps)
       \<and> map index (mergeWithNext panelId ps) = [0..<length ps - 1]
       \<and> (\<exists>tm. recap_texts (mergeWithNext panelId ps ! i) = Some tm
            \<and> (\<forall>l. map_of tm l =
                  (case map_of ta l of
                     Some s \<Rightarrow> (case map_of tb l of Some t \<Rightarrow> Some (s @ '' '' @ t) | None \<Rightarrow> Some s)
                   | None \<Rightarrow> map_of tb l)))
       \<and> mergeTexts (Some [(''en'', ''Hello'')]) (Some [(''en'', ''world'')])
           = Some [(''en'', ''Hello world'')]"
proof -
  let ?m = "(ps ! i)\<lparr>recap_texts := mergeTexts (recap_texts (ps ! i)) (recap_texts (ps ! Suc i))\<rparr>"
  let ?new = "take i ps @ [?m] @ drop (i + 2) ps"
  have res: "mergeWithNext panelId ps = reindex ?new"
    using assms(1,2) by (simp add: mergeWithNext_def)
  have i: "i < length ps" using assms(2) by simp
  have tk: "take (Suc i) ps = take i ps @ [ps ! i]"
    using i by (simp add: take_Suc_conv_app_nth)
  have len: "length ?new + 1 = length ps"
    using assms(2) by simp
  have ids: "map panel_id (reindex ?new) = map panel_id (take (Suc i) ps @ drop (i + 2) ps)"
  proof -
    have h: "panel_id \<circ> (\<lambda>(i, p). p\<lparr>index := i\<rparr>) = panel_id \<circ> snd"
      by (auto simp: fun_eq_iff)
    have "map panel_id (reindex ?new)
            = map (panel_id \<circ> (\<lambda>(i, p). p\<lparr>index := i\<rparr>)) (enumerate 0 ?new)"
      by (simp only: reindex_def map_map)
    also have "\<dots> = map panel_id (map snd (enumerate 0 ?new))"
      by (simp only: h map_map)
    also have "\<dots> = map panel_id ?new" by simp
    finally show ?thesis by (simp add: tk)
  qed
  have coords: "map coordinates (reindex ?new)
                  = map coordinates (take (Suc i) ps @ drop (i + 2) ps)"
    by (simp add: map_coordinates_reindex tk)
  have len': "length ?new = length ps - 1"
    using assms(2) by simp
  have idx: "map index (reindex ?new) = [0..<length ps - 1]"
    by (simp only: map_index_reindex len')
  obtain tm where tm: "mergeTexts (Some ta) (Some tb) = Some tm"
    by (simp add: mergeTexts_def)
  have "reindex ?new ! i = ?m\<lparr>index := i\<rparr>"
  proof -
    have "i < length ?new" using assms(2) by simp
    then have "reindex ?new ! i = (\<lambda>(i, p). p\<lparr>index := i\<rparr>) (enumerate 0 ?new ! i)"
      by (simp add: reindex_def)
    also have "\<dots> = ?m\<lparr>index := i\<rparr>"
      using i \<open>i < length ?new\<close> by (simp add: nth_enumerate_eq nth_append)
    finally show ?thesis .
  qed
  then have texts: "recap_texts (reindex ?new ! i) = Some tm"
    using tm assms(3,4) by simp
  have ex: "mergeTexts (Some [(''en'', ''Hello'')]) (Some [(''en'', ''world'')])
              = Some [(''en'', ''Hello world'')]"
    by (simp add: mergeTexts_def)
  show ?thesis
    unfolding res
    using len ids coords idx texts mergeTexts_lookup [OF tm] ex
    by (simp add: length_reindex del: length_append)
qed

definition helloWorldPanels :: "Panel list" where
  "helloWorldPanels =
     [(examplePanel ''A'' 0 (0, 0, 1, 1 / 2))\<lparr>recap_texts := Some [(''en'', ''Hello'')]\<rparr>,
      (examplePanel ''B'' 1 (0, 1 / 2, 1, 1 / 2))\<lparr>recap_texts := Some [(''en'', ''world'')]\<rparr>]"

theorem C8_merge_with_next_witness:
  "mergeWithNext ''A'' helloWorldPanels
     = [(examplePanel ''A'' 0 (0, 0, 1, 1 / 2))\<lparr>recap_texts := Some [(''en'', ''Hello world'')]\<rparr>]
   \<and> length (mergeWithNext ''A'' helloWorldPanels) + 1 = length helloWorldPanels
   \<and> map coordinates (mergeWithNext ''A'' helloWorldPanels) = [(0, 0, 1, 1 / 2)]
   \<and> map index (mergeWithNext ''A'' helloWorldPanels) = [0]"
proof -
  have 1: "findIndex (\<lambda>p. panel_id p = ''A'') helloWorldPanels = Some 0"
    by (simp add: helloWorldPanels_def examplePanel_def)
  have 2: "Suc 0 < length helloWorldPanels"
    by (simp add: helloWorldPanels_def)
  have 3: "recap_texts (helloWorldPanels ! 0) = Some [(''en'', ''Hello'')]"
    by (simp add: helloWorldPanels_def)
  have 4: "recap_texts (helloWorldPanels ! Suc 0) = Some [(''en'', ''world'')]"
    by (simp add: helloWorldPanels_def)
  have 5: "mergeWithNext ''A'' helloWorldPanels
     = [(examplePanel ''A'' 0 (0, 0, 1, 1 / 2))\<lparr>recap_texts := Some [(''en'', ''Hello world'')]\<rparr>]"
    by code_simp
  from C8_merge_with_next [OF 1 2 3 4] 5
  show ?thesis by (simp add: helloWorldPanels_def examplePanel_def)
qed

section \<open>Panel detector (panelDetectorService)\<close>

text \<open>
  What \<open>loadImageToCanvas\<close> yields: a rejection, or the raster. The raster is the canvas
  width and height and the bytes of \<open>getImageData(0, 0, width, height).data\<close> (RGBA, row by
  row) as a function of the byte position.
\<close>

datatype CanvasLoad = LoadFailed | NoContext | Loaded nat nat "nat \<Rightarrow> 8 word"

text \<open>Storing a number into a \<open>Uint8ClampedArray\<close>: clamped to 0..255, rounded, ties to even.\<close>

definition toUint8Clamp :: "rat \<Rightarrow> nat" where
  "toUint8Clamp q =
     (let c = max 0 (min 255 q);
          f = \<lfloor>c\<rfloor>;
          d = c - of_int f
      in nat (if d < 1 / 2 then f else if d > 1 / 2 then f + 1
              else if even f then f else f + 1))"

text \<open>\<open>toGrayscale\<close>: \<open>grayData[i / 4]\<close> for the pixel whose bytes start at \<open>i\<close>.\<close>

definition toGrayscale :: "(nat \<Rightarrow> 8 word) \<Rightarrow> nat \<Rightarrow> nat" where
  "toGrayscale data k =
     toUint8Clamp (of_nat (unat (data (4 * k))) * (299 / 1000)
                 + of_nat (unat (data (4 * k + 1))) * (587 / 1000)
                 + of_nat (unat (data (4 * k + 2))) * (114 / 1000))"

definition WHITESPACE_THRESHOLD :: rat where
  "WHITESPACE_THRESHOLD = 250"

definition MIN_GUTTER_HEIGHT :: nat where
  "MIN_GUTTER_HEIGHT = 10"

definition horizontalProjection :: "(nat \<Rightarrow> nat) \<Rightarrow> nat \<Rightarrow> nat \<Rightarrow> nat" where
  "horizontalProjection grayData width y =
     sum_list (map (\<lambda>x. grayData (y * width + x)) [0..<width])"

text \<open>
  \<open>horizontalProjection[y] / width\<close>. (With \<open>width = 0\<close> JavaScript has \<open>NaN\<close> here, which
  is not above the threshold; the quotient is 0 in HOL, which is not above it either, and
  the look-ahead comparison is reached only from a row that is above it.)
\<close>

definition avgPixelValue :: "(nat \<Rightarrow> nat) \<Rightarrow> nat \<Rightarrow> nat \<Rightarrow> rat" where
  "avgPixelValue grayData width y = of_nat (horizontalProjection grayData width y) / of_nat width"

text \<open>One turn of the loop over the rows, on \<open>(boundaries, inGutter)\<close>.\<close>

definition boundaryStep ::
    "(nat \<Rightarrow> nat) \<Rightarrow> nat \<Rightarrow> nat \<Rightarrow> nat list \<times> bool \<Rightarrow> nat \<Rightarrow> nat list \<times> bool" where
  "boundaryStep grayData width height st y =
     (case st of (boundaries, inGutter) \<Rightarrow>
        let MIN_PANEL_HEIGHT = of_nat height * (5 / 100) in
        if avgPixelValue grayData width y > WHITESPACE_THRESHOLD then
          (if \<not> inGutter then
             (let lookahead = y + MIN_GUTTER_HEIGHT;
                  isConsistentGutter =
                    list_all (\<lambda>i. \<not> avgPixelValue grayData width i < WHITESPACE_THRESHOLD)
                      [y + 1..<min lookahead height]
              in if isConsistentGutter then
                   (let lastBoundary = last boundaries
                    in if (of_nat y :: rat) - of_nat lastBoundary > MIN_PANEL_HEIGHT
                       then (boundaries @ [y], True) else (boundaries, True))
                 else (boundaries, True))
           else (boundaries, inGutter))
        else (boundaries, False))"

definition detectByWhitespace :: "(nat \<Rightarrow> nat) \<Rightarrow> nat \<Rightarrow> nat \<Rightarrow> PanelBase list" where
  "detectByWhitespace grayData width height =
     (let MIN_PANEL_HEIGHT = of_nat height * (5 / 100) :: rat;
          boundaries = fst (foldl (boundaryStep grayData width height) ([0], False) [0..<height])
                       @ [height]
      in concat (map (\<lambda>(y_start, y_end).
                        let h = (of_nat y_end :: rat) - of_nat y_start in
                        if h > MIN_PANEL_HEIGHT then
                          [\<lparr>coordinates = (0, of_nat y_start / of_nat height, 1, h / of_nat height),
                            recap_texts = None, confidence = 8 / 10, narration_tone = None,
                            key_action_description = None, dialogue_summary = None,
                            flags = Some \<lparr>is_promotional = Some False, text_heavy = None,
                                          face_cut_risk = None\<rparr>,
                            croppedImageBase64 = None, audioInfos = [], status = Pending\<rparr>]
                        else [])
                     (zip boundaries (tl boundaries))))"

text \<open>
  \<open>detectPanels\<close>; \<open>now i\<close> is the reading of \<open>Date.now()\<close> when the \<open>i\<close>-th identifier is
  built.
\<close>

definition detectPanels :: "(nat \<Rightarrow> nat) \<Rightarrow> CanvasLoad \<Rightarrow> string + PanelWithId list" where
  "detectPanels now load =
     (case load of
        LoadFailed \<Rightarrow> Inl ''Failed to load image for panel detection.''
      | NoContext \<Rightarrow> Inl ''Could not get canvas context''
      | Loaded width height data \<Rightarrow>
          (let grayData = toGrayscale data;
               whitespacePanels = detectByWhitespace grayData width height
           in if length whitespacePanels = 0 then
                Inr [\<lparr>coordinates = (0, 0, 1, 1), recap_texts = None, confidence = 3 / 10,
                      narration_tone = None, key_action_description = None,
                      dialogue_summary = None,
                      flags = Some \<lparr>is_promotional = None, text_heavy = None,
                                    face_cut_risk = None\<rparr>,
                      croppedImageBase64 = None, audioInfos = [], status = Pending,
                      panel_id = ''fallback-0''\<rparr>]
              else
                Inr (map (\<lambda>(i, p). PanelBase.extend p
                            (PanelWithId.fields (''cv-'' @ decimal (now i) @ ''-'' @ decimal i)))
                       (enumerate 0 whitespacePanels))))"






section \<open>External-model calls: retries and fallbacks\<close>

text \<open>
  Errors are values. \<open>ApiError\<close> is a rejection of the external call; the other
  constructors are the errors the services build, with the error they quote.
\<close>

datatype Error =
    ApiError string
  | AllAttemptsFailed nat "Error option"
  | AllFallbacksFailed "string option" "Error option"
  | ApiKeyNotConfigured
  | NotJson
  | NotAnArray
  | Incomplete "string list"
  | ErrorGeneratingStories Error
  | NoAudioData "string option"

text \<open>
  What reaches the outside world, in order: a call to a model with a request, or a wait of
  so many milliseconds (\<open>setTimeout\<close>). The external model is an oracle: the outcome of the
  \<open>k\<close>-th call (counted from 0 over the whole trace) to a model with a request.
\<close>

datatype 'q Event = Call string 'q | Sleep nat

fun is_Call :: "'q Event \<Rightarrow> bool" where
  "is_Call (Call m q) = True"
| "is_Call (Sleep d) = False"

definition callCount :: "'q Event list \<Rightarrow> nat" where
  "callCount tr = length (filter is_Call tr)"

definition apiCall ::
    "(string \<Rightarrow> 'q \<Rightarrow> nat \<Rightarrow> Error + 'r) \<Rightarrow> string \<Rightarrow> 'q \<Rightarrow> 'q Event list
      \<Rightarrow> (Error + 'r) \<times> 'q Event list" where
  "apiCall api model request tr = (api model request (callCount tr), tr @ [Call model request])"

text \<open>
  \<open>withRetries\<close>: the loop \<open>for (let i = 0; i < retries; i++)\<close>, with \<open>n = retries - i\<close> turns
  left. (\<open>onRetry\<close> only reports a status message.)
\<close>

fun withRetriesLoop ::
    "('q Event list \<Rightarrow> (Error + 'r) \<times> 'q Event list) \<Rightarrow> nat \<Rightarrow> nat \<Rightarrow> nat \<Rightarrow> nat
      \<Rightarrow> Error option \<Rightarrow> 'q Event list \<Rightarrow> (Error + 'r) \<times> 'q Event list" where
  "withRetriesLoop fn retries delayMs 0 i lastError tr =
     (Inl (AllAttemptsFailed retries lastError), tr)"
| "withRetriesLoop fn retries delayMs (Suc n) i lastError tr =
     (case fn tr of
        (Inr v, tr1) \<Rightarrow> (Inr v, tr1)
      | (Inl e, tr1) \<Rightarrow>
          withRetriesLoop fn retries delayMs n (i + 1) (Some e)
            (if i < retries - 1 then tr1 @ [Sleep (delayMs * 2 ^ i)] else tr1))"

definition withRetries ::
    "('q Event list \<Rightarrow> (Error + 'r) \<times> 'q Event list) \<Rightarrow> nat \<Rightarrow> nat
      \<Rightarrow> 'q Event list \<Rightarrow> (Error + 'r) \<times> 'q Event list" where
  "withRetries fn retries delayMs tr = withRetriesLoop fn retries delayMs retries 0 None tr"

text \<open>\<open>withRetriesAndFallbacks\<close>: the loop \<open>for (const model of models)\<close>.\<close>

fun fallbackLoop ::
    "(string \<Rightarrow> 'q Event list \<Rightarrow> (Error + 'r) \<times> 'q Event list) \<Rightarrow> nat \<Rightarrow> string list
      \<Rightarrow> string list \<Rightarrow> Error option \<Rightarrow> 'q Event list \<Rightarrow> (Error + 'r) \<times> 'q Event list" where
  "fallbackLoop apiCallFn retriesPerModel models [] lastError tr =
     (Inl (AllFallbacksFailed (if models = [] then None else Some (last models)) lastError), tr)"
| "fallbackLoop apiCallFn retriesPerModel models (model # rest) lastError tr =
     (case withRetries (apiCallFn model) retriesPerModel 1500 tr of
        (Inr v, tr1) \<Rightarrow> (Inr v, tr1)
      | (Inl e, tr1) \<Rightarrow> fallbackLoop apiCallFn retriesPerModel models rest (Some e) tr1)"

definition withRetriesAndFallbacks ::
    "(string \<Rightarrow> 'q Event list \<Rightarrow> (Error + 'r) \<times> 'q Event list) \<Rightarrow> string list \<Rightarrow> nat
      \<Rightarrow> 'q Event list \<Rightarrow> (Error + 'r) \<times> 'q Event list" where
  "withRetriesAndFallbacks apiCallFn models retriesPerModel tr =
     fallbackLoop apiCallFn retriesPerModel models models None tr"

definition ALL_TEXT_MODELS :: "string list" where
  "ALL_TEXT_MODELS = [''gemini-2.5-flash'']"


section \<open>Narrative client (geminiService.generateStoriesForPanels)\<close>

record StoryGenerationResult =
  sg_panel_id :: string
  sg_recap_texts :: "(string \<times> string) list"
  sg_key_action_description :: string
  sg_dialogue_summary :: string
  sg_narration_tone :: string

text \<open>
  What \<open>response.text\<close> is after the fence is stripped and \<open>JSON.parse\<close> has run: not JSON
  (the parse throws), JSON that is not an array, or an array of story objects.
\<close>

datatype ModelReply = ReplyNotJson | ReplyNotArray | ReplyStories "StoryGenerationResult list"

datatype Part = TextPart string | InlineData string "string option"

text \<open>
  The request: the parts of \<open>contents\<close>, and the two inputs the \<open>config\<close> is built from
  (the system instruction is a fixed text around the trimmed character descriptions, the
  response schema a fixed shape over the target languages).
\<close>

record StoryRequest =
  contents :: "Part list"
  characterGuide :: string
  schemaLanguages :: "string list"

definition isSpace :: "char \<Rightarrow> bool" where
  "isSpace c = (c = CHR '' '' \<or> c = CHR 0x09 \<or> c = CHR 0x0A \<or> c = CHR 0x0B \<or> c = CHR 0x0C
                \<or> c = CHR 0x0D)"

definition trim :: "string \<Rightarrow> string" where
  "trim s = rev (dropWhile isSpace (rev (dropWhile isSpace s)))"

fun join :: "string \<Rightarrow> string list \<Rightarrow> string" where
  "join sep [] = []"
| "join sep [x] = x"
| "join sep (x # y # ys) = x @ sep @ join sep (y # ys)"

definition contextText :: "string option \<Rightarrow> string" where
  "contextText previousPanelContext =
     (case previousPanelContext of
        None \<Rightarrow> []
      | Some c \<Rightarrow> if c = [] then []
                  else ''Context from previous chapter/page chunk: '' @ [CHR 0x22] @ c @ [CHR 0x22])"

definition promptText :: "string list \<Rightarrow> string option \<Rightarrow> string" where
  "promptText targetLanguages previousPanelContext =
     ''Analyze this batch of panels. For each panel, generate a story recap for the following languages: ''
     @ join '', '' targetLanguages
     @ ''. Use the provided context and the CRITICAL character guide in the system prompt to ensure narrative flow. ''
     @ contextText previousPanelContext"

text \<open>
  The two parts of a cropped panel: \<open>[header, data] = croppedImageBase64.split(',')\<close>, and
  the MIME type \<open>header.match(/:(.*?);/)?.[1] || 'image/png'\<close>.
\<close>

definition mimeTypeOf :: "string \<Rightarrow> string" where
  "mimeTypeOf header =
     (let after = drop 1 (dropWhile (\<lambda>c. c \<noteq> CHR '':'') header)
      in if CHR '';'' \<in> set after \<and> takeWhile (\<lambda>c. c \<noteq> CHR '';'') after \<noteq> []
         then takeWhile (\<lambda>c. c \<noteq> CHR '';'') after else ''image/png'')"

definition panelParts :: "Panel \<Rightarrow> Part list" where
  "panelParts panel =
     (case croppedImageBase64 panel of
        None \<Rightarrow> []
      | Some img \<Rightarrow>
          if img = [] then []
          else
            (let header = takeWhile (\<lambda>c. c \<noteq> CHR '','') img;
                 rest = dropWhile (\<lambda>c. c \<noteq> CHR '','') img;
                 data = (if rest = [] then None
                         else Some (takeWhile (\<lambda>c. c \<noteq> CHR '','') (drop 1 rest)))
             in [TextPart (''--- PANEL START (ID: '' @ panel_id panel @ '') ---''),
                 InlineData (mimeTypeOf header) data]))"

definition storyRequest :: "Panel list \<Rightarrow> string \<Rightarrow> string option \<Rightarrow> string list \<Rightarrow> StoryRequest" where
  "storyRequest panelList characterDescriptions previousPanelContext targetLanguages =
     \<lparr>contents = TextPart (promptText targetLanguages previousPanelContext)
                  # concat (map panelParts panelList),
      characterGuide = trim characterDescriptions,
      schemaLanguages = targetLanguages\<rparr>"

text \<open>The elements of \<open>new Set(xs)\<close> in iteration order: first occurrences.\<close>

fun setOrder :: "'a list \<Rightarrow> 'a list" where
  "setOrder [] = []"
| "setOrder (x # xs) = x # filter (\<lambda>y. y \<noteq> x) (setOrder xs)"

definition missingIds :: "Panel list \<Rightarrow> StoryGenerationResult list \<Rightarrow> string list" where
  "missingIds panelList parsed =
     filter (\<lambda>i. i \<notin> set (map sg_panel_id parsed)) (setOrder (map panel_id panelList))"

definition generateStoriesForPanels ::
    "bool \<Rightarrow> (string \<Rightarrow> StoryRequest \<Rightarrow> nat \<Rightarrow> Error + ModelReply) \<Rightarrow> Panel list \<Rightarrow> string
      \<Rightarrow> string option \<Rightarrow> string list \<Rightarrow> StoryRequest Event list
      \<Rightarrow> (Error + StoryGenerationResult list) \<times> StoryRequest Event list" where
  "generateStoriesForPanels API_KEY api panelList characterDescriptions previousPanelContext
       targetLanguages tr =
     (if \<not> API_KEY then (Inl ApiKeyNotConfigured, tr)
      else
        let request = storyRequest panelList characterDescriptions previousPanelContext
                        targetLanguages
        in case withRetriesAndFallbacks (\<lambda>model. apiCall api model request) ALL_TEXT_MODELS 2 tr of
             (Inl e, tr1) \<Rightarrow> (Inl (ErrorGeneratingStories e), tr1)
           | (Inr response, tr1) \<Rightarrow>
               (case response of
                  ReplyNotJson \<Rightarrow> (Inl (ErrorGeneratingStories NotJson), tr1)
                | ReplyNotArray \<Rightarrow> (Inl (ErrorGeneratingStories NotAnArray), tr1)
                | ReplyStories parsed \<Rightarrow>
                    if length (missingIds panelList parsed) > 0
                    then (Inl (ErrorGeneratingStories (Incomplete (missingIds panelList parsed))), tr1)
                    else (Inr parsed, tr1)))"

section \<open>Narration audio client (geminiTtsService.generateAudioForSegment)\<close>





section \<open>What the retry helpers send\<close>












section \<open>A response that omits a panel\<close>

lemma set_setOrder: "set (setOrder xs) = set xs"
  by (induction xs) auto

lemma set_missingIds:
  "set (missingIds panelList parsed) = set (map panel_id panelList) - set (map sg_panel_id parsed)"
  by (auto simp: missingIds_def set_setOrder)

definition croppedPanel :: "string \<Rightarrow> nat \<Rightarrow> Panel" where
  "croppedPanel pid i =
     (examplePanel pid i (0, 0, 1, 1))\<lparr>croppedImageBase64 := Some ''data:image/png;base64,AAAA''\<rparr>"

definition story :: "string \<Rightarrow> string \<Rightarrow> StoryGenerationResult" where
  "story pid txt =
     \<lparr>sg_panel_id = pid, sg_recap_texts = [(''en-US'', txt)],
      sg_key_action_description = ''action'', sg_dialogue_summary = ''None'',
      sg_narration_tone = ''Tense''\<rparr>"

definition fivePanels :: "Panel list" where
  "fivePanels = [croppedPanel ''p1'' 0, croppedPanel ''p2'' 1, croppedPanel ''p3'' 2,
                 croppedPanel ''p4'' 3, croppedPanel ''p5'' 4]"

text \<open>
  A model that leaves \<open>p5\<close> out of its first answer and would answer in full from the
  second call on.
\<close>

definition forgetfulOnce :: "string \<Rightarrow> StoryRequest \<Rightarrow> nat \<Rightarrow> Error + ModelReply" where
  "forgetfulOnce model request k =
     (if k = 0
      then Inr (ReplyStories [story ''p1'' ''a'', story ''p2'' ''b'', story ''p3'' ''c'',
                               story ''p4'' ''d''])
      else Inr (ReplyStories [story ''p1'' ''a'', story ''p2'' ''b'', story ''p3'' ''c'',
                               story ''p4'' ''d'', story ''p5'' ''e'']))"

text \<open>
  C5, as stated, fails: the batch of five panels is answered with four stories. The batch
  is rejected with the error that names \<open>p5\<close>, but no retry and no fallback takes place:
  one call was made, and the second call, which would have brought all five stories, is
  never made.
\<close>

theorem C5_incomplete_response_not_retried:
  "generateStoriesForPanels True forgetfulOnce fivePanels [] None [''en-US''] []
     = (Inl (ErrorGeneratingStories (Incomplete [''p5''])),
        [Call ''gemini-2.5-flash'' (storyRequest fivePanels [] None [''en-US''])])
   \<and> forgetfulOnce ''gemini-2.5-flash'' (storyRequest fivePanels [] None [''en-US'']) 1
     = Inr (ReplyStories [story ''p1'' ''a'', story ''p2'' ''b'', story ''p3'' ''c'',
                          story ''p4'' ''d'', story ''p5'' ''e''])"
  by (simp add: generateStoriesForPanels_def withRetriesAndFallbacks_def ALL_TEXT_MODELS_def
        withRetries_def apiCall_def callCount_def forgetfulOnce_def missingIds_def
        fivePanels_def croppedPanel_def examplePanel_def story_def numeral_2_eq_2)

text \<open>
  C5, amended. When the response that \<open>withRetriesAndFallbacks\<close> delivers omits a
  submitted panel identifier, \<open>generateStoriesForPanels\<close> rejects the whole batch with the
  error that lists exactly the submitted identifiers that are missing, and it stops
  there: the trace is the one the helper left, no further call is made.
\<close>

theorem C5_incomplete_response_rejected:
  assumes "withRetriesAndFallbacks
             (\<lambda>model. apiCall api model (storyRequest panelList cd ctx langs)) ALL_TEXT_MODELS 2 tr
           = (Inr (ReplyStories parsed), tr1)"
      and "\<not> set (map panel_id panelList) \<subseteq> set (map sg_panel_id parsed)"
  shows "generateStoriesForPanels True api panelList cd ctx langs tr
           = (Inl (ErrorGeneratingStories (Incomplete (missingIds panelList parsed))), tr1)
         \<and> missingIds panelList parsed \<noteq> []
         \<and> set (missingIds panelList parsed)
             = set (map panel_id panelList) - set (map sg_panel_id parsed)"
proof -
  from assms(2) have "set (missingIds panelList parsed) \<noteq> {}"
    unfolding set_missingIds by blast
  then have ne: "missingIds panelList parsed \<noteq> []" by auto
  with assms(1) show ?thesis
    by (simp add: generateStoriesForPanels_def set_missingIds)
qed

theorem C5_incomplete_response_rejected_witness:
  "generateStoriesForPanels True forgetfulOnce fivePanels [] None [''en-US''] []
     = (Inl (ErrorGeneratingStories (Incomplete (missingIds fivePanels
             [story ''p1'' ''a'', story ''p2'' ''b'', story ''p3'' ''c'', story ''p4'' ''d'']))),
        [Call ''gemini-2.5-flash'' (storyRequest fivePanels [] None [''en-US''])])
   \<and> missingIds fivePanels
        [story ''p1'' ''a'', story ''p2'' ''b'', story ''p3'' ''c'', story ''p4'' ''d''] = [''p5'']"
proof -
  have 1: "withRetriesAndFallbacks
             (\<lambda>model. apiCall forgetfulOnce model (storyRequest fivePanels [] None [''en-US'']))
             ALL_TEXT_MODELS 2 []
           = (Inr (ReplyStories [story ''p1'' ''a'', story ''p2'' ''b'', story ''p3'' ''c'',
                                 story ''p4'' ''d'']),
              [Call ''gemini-2.5-flash'' (storyRequest fivePanels [] None [''en-US''])])"
    by (simp add: withRetriesAndFallbacks_def ALL_TEXT_MODELS_def withRetries_def apiCall_def
          forgetfulOnce_def callCount_def numeral_2_eq_2)
  have 2: "\<not> set (map panel_id fivePanels)
             \<subseteq> set (map sg_panel_id [story ''p1'' ''a'', story ''p2'' ''b'', story ''p3'' ''c'',
                                       story ''p4'' ''d''])"
    by (simp add: fivePanels_def croppedPanel_def examplePanel_def story_def)
  have 3: "missingIds fivePanels
        [story ''p1'' ''a'', story ''p2'' ''b'', story ''p3'' ''c'', story ''p4'' ''d''] = [''p5'']"
    by (simp add: missingIds_def fivePanels_def croppedPanel_def examplePanel_def story_def)
  from C5_incomplete_response_rejected [of forgetfulOnce fivePanels "[]" None "[''en-US'']" "[]"
          "[story ''p1'' ''a'', story ''p2'' ''b'', story ''p3'' ''c'', story ''p4'' ''d'']"
          "[Call ''gemini-2.5-flash'' (storyRequest fivePanels [] None [''en-US''])]", OF 1 2] 3
  show ?thesis by simp
qed

section \<open>The recovery policy of each client\<close>








section \<open>Story generation for all chapters (MangaToVideoPanel)\<close>

text \<open>\<open>storyMap.get(id)\<close> after \<open>storyData.forEach(item => storyMap.set(item.panel_id, item))\<close>.\<close>

definition storyMapGet :: "StoryGenerationResult list \<Rightarrow> string \<Rightarrow> StoryGenerationResult option" where
  "storyMapGet storyData pid = find (\<lambda>item. sg_panel_id item = pid) (rev storyData)"

text \<open>The update that writes the stories of a chapter; every page of the chapter is rebuilt.\<close>

definition storiesUpdater :: "string \<Rightarrow> StoryGenerationResult list \<Rightarrow> Updater" where
  "storiesUpdater chapterId storyData \<sigma> prev =
     mapChapters (\<lambda>\<sigma> ch.
        if ch_id ch \<noteq> chapterId then (\<sigma>, ch)
        else
          (case mapPages (\<lambda>page. Some (page\<lparr>panels :=
                    map (\<lambda>panel.
                           case storyMapGet storyData (panel_id panel) of
                             Some storyResult \<Rightarrow>
                               panel\<lparr>recap_texts := Some (sg_recap_texts storyResult),
                                     narration_tone := Some (sg_narration_tone storyResult),
                                     key_action_description :=
                                       Some (sg_key_action_description storyResult),
                                     dialogue_summary := Some (sg_dialogue_summary storyResult),
                                     status := Complete\<rparr>
                           | None \<Rightarrow> panel)
                        (panels page)\<rparr>))
                \<sigma> (stitchedPages ch)
           of (\<sigma>', newPages) \<Rightarrow> (\<sigma>', ch\<lparr>stitchedPages := newPages\<rparr>)))
       \<sigma> prev"

text \<open>
  \<open>handleGenerateStories\<close>. \<open>chapters\<close> is the constant of the render in which the handler
  was created (the closure's \<open>chapters\<close>); its page references are read in the live store.
  The result says whether the handler threw (it re-throws the service's error), and gives
  the live state and the trace of calls.
\<close>

definition handleGenerateStories ::
    "(string \<Rightarrow> StoryRequest \<Rightarrow> nat \<Rightarrow> Error + ModelReply) \<Rightarrow> string \<Rightarrow> string list
      \<Rightarrow> Chapter list \<Rightarrow> string \<Rightarrow> string option
      \<Rightarrow> World \<times> StoryRequest Event list \<Rightarrow> Error option \<times> World \<times> StoryRequest Event list" where
  "handleGenerateStories api characterDescriptions targetLanguages chapters chapterId
       previousChapterContext st =
     (case st of (w, tr) \<Rightarrow>
       (case find (\<lambda>c. ch_id c = chapterId) chapters of
          None \<Rightarrow> (None, w, tr)
        | Some chapter \<Rightarrow>
            (let allPanelsInChapter =
                   concat (map (\<lambda>r. panels (deref (fst w) r)) (stitchedPages chapter))
             in if length allPanelsInChapter = 0 then (None, w, tr)
                else
                  (case generateStoriesForPanels True api allPanelsInChapter characterDescriptions
                          previousChapterContext targetLanguages tr of
                     (Inl e, tr1) \<Rightarrow> (Some e, w, tr1)
                   | (Inr storyData, tr1) \<Rightarrow>
                       (None, setChapters (storiesUpdater chapterId storyData) False w, tr1)))))"

text \<open>
  \<open>handleGenerateAllStories\<close>: the loop over the chapters, carrying
  \<open>previousChapterContext\<close>. \<open>chaptersHistory\<close> is, like \<open>chapters\<close>, the constant of the render
  in which the handler was created: \<open>const latestChapters = chaptersHistory.present\<close> reads
  that value, whatever updates the awaited call has made to the live state meanwhile. (No
  stop is requested during the run.)
\<close>

fun generateAllLoop ::
    "(string \<Rightarrow> StoryRequest \<Rightarrow> nat \<Rightarrow> Error + ModelReply) \<Rightarrow> string \<Rightarrow> string list \<Rightarrow> string
      \<Rightarrow> Chapter list History \<Rightarrow> Chapter list \<Rightarrow> string option
      \<Rightarrow> World \<times> StoryRequest Event list \<Rightarrow> World \<times> StoryRequest Event list" where
  "generateAllLoop api characterDescriptions targetLanguages selectedLanguage chaptersHistory
       [] previousChapterContext st = st"
| "generateAllLoop api characterDescriptions targetLanguages selectedLanguage chaptersHistory
       (chapter # rest) previousChapterContext st =
     (case handleGenerateStories api characterDescriptions targetLanguages
             (present chaptersHistory) (ch_id chapter) previousChapterContext st of
        (Some e, w1, tr1) \<Rightarrow> (w1, tr1)
      | (None, w1, tr1) \<Rightarrow>
          (let latestChapters = present chaptersHistory;
               nextContext =
                 (case find (\<lambda>c. ch_id c = ch_id chapter) latestChapters of
                    None \<Rightarrow> previousChapterContext
                  | Some updatedChapter \<Rightarrow>
                      if stitchedPages updatedChapter = [] then previousChapterContext
                      else
                        (let lastPage = deref (fst w1) (last (stitchedPages updatedChapter))
                         in if length (panels lastPage) > 0 then
                              (let lastPanel = last (panels lastPage)
                               in case recap_texts lastPanel of
                                    None \<Rightarrow> None
                                  | Some texts \<Rightarrow> map_of texts selectedLanguage)
                            else previousChapterContext))
           in generateAllLoop api characterDescriptions targetLanguages selectedLanguage
                chaptersHistory rest nextContext (w1, tr1)))"

definition handleGenerateAllStories ::
    "(string \<Rightarrow> StoryRequest \<Rightarrow> nat \<Rightarrow> Error + ModelReply) \<Rightarrow> string \<Rightarrow> string list \<Rightarrow> string
      \<Rightarrow> Chapter list History \<Rightarrow> World \<times> StoryRequest Event list
      \<Rightarrow> World \<times> StoryRequest Event list" where
  "handleGenerateAllStories api characterDescriptions targetLanguages selectedLanguage
       chaptersHistory st =
     generateAllLoop api characterDescriptions targetLanguages selectedLanguage chaptersHistory
       (present chaptersHistory) None st"

text \<open>Two chapters of one page and one cropped panel each, no story written yet.\<close>

definition twoChapters :: World where
  "twoChapters =
     ([examplePage ''page-1'' ''ch-1'' [croppedPanel ''c1p1'' 0],
       examplePage ''page-2'' ''ch-2'' [croppedPanel ''c2p1'' 0]],
      \<lparr>past = [],
       present = [\<lparr>ch_id = ''ch-1'', ch_name = ''Chapter 1'', stitchedPages = [0],
                   ch_status = Processed, ch_error = None\<rparr>,
                  \<lparr>ch_id = ''ch-2'', ch_name = ''Chapter 2'', stitchedPages = [1],
                   ch_status = Processed, ch_error = None\<rparr>],
       future = []\<rparr>)"

text \<open>A model that tells chapter 1 with the text X = "The hero falls." and then chapter 2.\<close>

definition narrator :: "string \<Rightarrow> StoryRequest \<Rightarrow> nat \<Rightarrow> Error + ModelReply" where
  "narrator model request k =
     (if k = 0 then Inr (ReplyStories [story ''c1p1'' ''The hero falls.''])
      else Inr (ReplyStories [story ''c2p1'' ''She catches him.'']))"

text \<open>
  C6. The request for chapter 2 should carry the text of chapter 1's last panel as that
  chapter's call produced it. In the run below the call for chapter 1 writes "The hero
  falls." into the live state as the text of its last panel; the request that is then
  sent for chapter 2 is the request built without any context, and its prompt does not
  contain that text. (Had the text been passed, the prompt would contain it.)
\<close>

theorem C6_context_not_threaded:
  "(let (w, tr) = handleGenerateAllStories narrator [] [''en-US''] ''en-US'' (snd twoChapters)
                    (twoChapters, [])
    in map (\<lambda>p. map recap_texts (panels p)) (pagesOf (fst w) (present (snd w)))
         = [[Some [(''en-US'', ''The hero falls.'')]], [Some [(''en-US'', ''She catches him.'')]]]
       \<and> tr = [Call ''gemini-2.5-flash''
                  (storyRequest [croppedPanel ''c1p1'' 0] [] None [''en-US'']),
                Call ''gemini-2.5-flash''
                  (storyRequest [croppedPanel ''c2p1'' 0] [] None [''en-US''])])
   \<and> \<not> sublist ''The hero falls.'' (promptText [''en-US''] None)
   \<and> sublist ''The hero falls.'' (promptText [''en-US''] (Some ''The hero falls.''))"
  by code_simp

section \<open>Undo and redo of a recorded edit\<close>

text \<open>
  An update is recorded when it changes the serialised state. If, moreover, it leaves the
  cells of the store as they are and only allocates new ones (as the updaters of delete,
  crop and duplicate do, unlike the one of split), then undo right after it brings back
  the state before it, redo right after that undo brings back the state after it, and a
  recorded update after an undo empties \<open>future\<close>.
\<close>

lemma stringify_append: "wellFormed \<sigma> chs \<Longrightarrow> stringify (\<sigma> @ ext) chs = stringify \<sigma> chs"
  by (auto simp: stringify_def stringifyChapter_def wellFormed_def list_all_iff deref_append)

lemma undo_after_recorded_edit:
  assumes "u \<sigma> (present h) = (\<sigma> @ ext, new)"
      and "stringify (\<sigma> @ ext) new \<noteq> stringify (\<sigma> @ ext) (present h)"
      and "wellFormed \<sigma> (present h)"
  shows "stringify (fst (setChapters u True (\<sigma>, h)))
           (present (handleUndo (snd (setChapters u True (\<sigma>, h)))))
         = stringify \<sigma> (present h)"
    and "handleRedo (handleUndo (snd (setChapters u True (\<sigma>, h)))) = snd (setChapters u True (\<sigma>, h))"
    and "future (snd (setChapters u True (\<sigma>, h))) = []"
proof -
  let ?np = "past h @ [present h]"
  let ?p = "if length ?np > 50 then tl ?np else ?np"
  have res: "setChapters u True (\<sigma>, h) = (\<sigma> @ ext, \<lparr>past = ?p, present = new, future = []\<rparr>)"
    using assms(1,2) by (simp add: setChapters_def Let_def)
  have ne: "?p \<noteq> []" by (cases "past h") auto
  have lastp: "last ?p = present h"
    by (cases "past h") (auto simp: last_tl)
  have undo: "handleUndo \<lparr>past = ?p, present = new, future = []\<rparr>
              = \<lparr>past = butlast ?p, present = present h, future = [new]\<rparr>"
    using ne lastp by (simp add: handleUndo_def Let_def last_conv_nth butlast_conv_take)
  have "present (handleUndo (snd (setChapters u True (\<sigma>, h)))) = present h"
    unfolding res snd_conv undo by simp
  moreover have "fst (setChapters u True (\<sigma>, h)) = \<sigma> @ ext"
    unfolding res by simp
  ultimately show "stringify (fst (setChapters u True (\<sigma>, h)))
           (present (handleUndo (snd (setChapters u True (\<sigma>, h)))))
         = stringify \<sigma> (present h)"
    using assms(3) by (simp only: stringify_append)
  have bl: "butlast ?p @ [present h] = ?p"
    using append_butlast_last_id [OF ne] unfolding lastp .
  have "handleRedo \<lparr>past = butlast ?p, present = present h, future = [new]\<rparr>
          = \<lparr>past = butlast ?p @ [present h], present = new, future = []\<rparr>"
    by (simp add: handleRedo_def Let_def)
  then have "handleRedo \<lparr>past = butlast ?p, present = present h, future = [new]\<rparr>
               = \<lparr>past = ?p, present = new, future = []\<rparr>"
    unfolding bl .
  then show "handleRedo (handleUndo (snd (setChapters u True (\<sigma>, h))))
              = snd (setChapters u True (\<sigma>, h))"
    unfolding res snd_conv undo .
  show "future (snd (setChapters u True (\<sigma>, h))) = []"
    by (simp add: res)
qed

lemma deletePanelUpdater_allocates:
  assumes "wellFormed \<sigma> prev"
  shows "\<exists>ext. fst (deletePanelUpdater chapterId pageId panelId \<sigma> prev) = \<sigma> @ ext"
proof -
  obtain \<sigma>' new where u: "deletePanelUpdater chapterId pageId panelId \<sigma> prev = (\<sigma>', new)"
    by (cases "deletePanelUpdater chapterId pageId panelId \<sigma> prev")
  have g: "(\<exists>ext. \<sigma>1 = \<sigma>0 @ ext) \<and> list_all (\<lambda>r. r < length \<sigma>1) (stitchedPages ch')
             \<and> list_all (\<lambda>p. True) (map (deref \<sigma>1) (stitchedPages ch'))"
    if "(if ch_id ch \<noteq> chapterId then (\<sigma>0, ch)
         else (case mapPages (\<lambda>p. if stitch_id p \<noteq> pageId then None
                   else Some (p\<lparr>panels := reindex (filter (\<lambda>panelItem. panel_id panelItem \<noteq> panelId)
                           (panels p))\<rparr>)) \<sigma>0 (stitchedPages ch)
               of (\<sigma>', newPages) \<Rightarrow> (\<sigma>', ch\<lparr>stitchedPages := newPages\<rparr>))) = (\<sigma>1, ch')"
       "list_all (\<lambda>r. r < length \<sigma>0) (stitchedPages ch)" for \<sigma>0 ch \<sigma>1 ch'
  proof (cases "ch_id ch \<noteq> chapterId")
    case True
    with that show ?thesis by (auto simp: list_all_iff)
  next
    case False
    obtain \<sigma>2 rs2 where m: "mapPages (\<lambda>p. if stitch_id p \<noteq> pageId then None
                   else Some (p\<lparr>panels := reindex (filter (\<lambda>panelItem. panel_id panelItem \<noteq> panelId)
                           (panels p))\<rparr>)) \<sigma>0 (stitchedPages ch) = (\<sigma>2, rs2)"
      by (cases "mapPages (\<lambda>p. if stitch_id p \<noteq> pageId then None
                   else Some (p\<lparr>panels := reindex (filter (\<lambda>panelItem. panel_id panelItem \<noteq> panelId)
                           (panels p))\<rparr>)) \<sigma>0 (stitchedPages ch)")
    with False that(1) have eq: "\<sigma>1 = \<sigma>2" "stitchedPages ch' = rs2" by auto
    from mapPages_inv [where P = "\<lambda>p. True", OF that(2) m] eq show ?thesis
      by (simp add: list_all_iff)
  qed
  from mapChapters_inv [where P = "\<lambda>p. True", OF g assms _ u [unfolded deletePanelUpdater_def]]
  have "\<exists>ext. \<sigma>' = \<sigma> @ ext" by (simp add: list_all_iff)
  with u show ?thesis by simp
qed

text \<open>
  Deleting a panel that is there is undone by undo and redone by redo, in every
  well-formed state.
\<close>

theorem delete_is_undoable:
  assumes "wellFormed \<sigma> (present h)"
      and "stringify (fst (handleDeletePanel chapterId pageId panelId (\<sigma>, h)))
             (present (snd (handleDeletePanel chapterId pageId panelId (\<sigma>, h))))
           \<noteq> stringify \<sigma> (present h)"
  shows "stringify (fst (handleDeletePanel chapterId pageId panelId (\<sigma>, h)))
           (present (handleUndo (snd (handleDeletePanel chapterId pageId panelId (\<sigma>, h)))))
         = stringify \<sigma> (present h)
       \<and> handleRedo (handleUndo (snd (handleDeletePanel chapterId pageId panelId (\<sigma>, h))))
         = snd (handleDeletePanel chapterId pageId panelId (\<sigma>, h))
       \<and> future (snd (handleDeletePanel chapterId pageId panelId (\<sigma>, h))) = []"
proof -
  obtain \<sigma>' new where u: "deletePanelUpdater chapterId pageId panelId \<sigma> (present h) = (\<sigma>', new)"
    by (cases "deletePanelUpdater chapterId pageId panelId \<sigma> (present h)")
  from deletePanelUpdater_allocates [OF assms(1), of chapterId pageId panelId] u
  obtain ext where ext: "\<sigma>' = \<sigma> @ ext" by auto
  have changed: "stringify (\<sigma> @ ext) new \<noteq> stringify (\<sigma> @ ext) (present h)"
  proof
    assume same: "stringify (\<sigma> @ ext) new = stringify (\<sigma> @ ext) (present h)"
    with u ext have "handleDeletePanel chapterId pageId panelId (\<sigma>, h) = (\<sigma> @ ext, h)"
      by (simp add: handleDeletePanel_def setChapters_def)
    with assms show False by (simp add: stringify_append)
  qed
  from undo_after_recorded_edit [where u = "deletePanelUpdater chapterId pageId panelId"
      and \<sigma> = \<sigma> and h = h and ext = ext and new = new, OF u [unfolded ext] changed assms(1)]
  show ?thesis by (simp add: handleDeletePanel_def)
qed

theorem delete_is_undoable_witness:
  "stringify (fst (handleDeletePanel ''ch-0'' ''page-A'' ''a1'' exampleWorld))
     (present (handleUndo (snd (handleDeletePanel ''ch-0'' ''page-A'' ''a1'' exampleWorld))))
   = stringify (fst exampleWorld) (present (snd exampleWorld))
   \<and> handleRedo (handleUndo (snd (handleDeletePanel ''ch-0'' ''page-A'' ''a1'' exampleWorld)))
     = snd (handleDeletePanel ''ch-0'' ''page-A'' ''a1'' exampleWorld)
   \<and> future (snd (handleDeletePanel ''ch-0'' ''page-A'' ''a1'' exampleWorld)) = []"
proof -
  have 1: "wellFormed (fst exampleWorld) (present (snd exampleWorld))"
    by code_simp
  have 2: "stringify (fst (handleDeletePanel ''ch-0'' ''page-A'' ''a1'' (fst exampleWorld, snd exampleWorld)))
             (present (snd (handleDeletePanel ''ch-0'' ''page-A'' ''a1'' (fst exampleWorld, snd exampleWorld))))
           \<noteq> stringify (fst exampleWorld) (present (snd exampleWorld))"
    by code_simp
  from delete_is_undoable [OF 1 2] show ?thesis by simp
qed

section \<open>Edits that keep the rectangle inside the page\<close>

text \<open>
  Moving a valid rectangle, drawing a new one from a start point on the page, and
  cropping the top or bottom edge of a valid rectangle give valid rectangles; the two
  halves of a split of a valid rectangle at a line strictly inside it are valid.
\<close>

theorem other_edits_keep_validRect:
  "(validRect c \<and> as_type a = Moving \<and> as_originalCoords a = Some c \<and>
      handleMouseMove a e = Some (pid, c') \<longrightarrow> validRect c')
   \<and> (0 \<le> as_startX b \<and> as_startX b \<le> 1 \<and> 0 \<le> as_startY b \<and> as_startY b \<le> 1 \<and>
      handleMouseUp b e2 = Some c2 \<longrightarrow> validRect c2)
   \<and> (validRect (coordinates panel) \<longrightarrow>
      validRect (coordinates (cropPanel (max 0 (min 1 cropY_norm)) direction panel)))
   \<and> (validRect (x, y, w, ht) \<and> y < s \<and> s < y + ht \<longrightarrow>
      validRect (x, y, w, s - y) \<and> validRect (x, s, w, (y + ht) - s))"
proof (intro conjI impI)
  assume "validRect c \<and> as_type a = Moving \<and> as_originalCoords a = Some c \<and>
      handleMouseMove a e = Some (pid, c')"
  then show "validRect c'" using move_keeps_validRect by blast
next
  assume "0 \<le> as_startX b \<and> as_startX b \<le> 1 \<and> 0 \<le> as_startY b \<and> as_startY b \<le> 1 \<and>
      handleMouseUp b e2 = Some c2"
  then show "validRect c2" using draw_creates_validRect by blast
next
  assume "validRect (coordinates panel)"
  then show "validRect (coordinates (cropPanel (max 0 (min 1 cropY_norm)) direction panel))"
    by (rule cropPanel_keeps_validRect)
next
  assume "validRect (x, y, w, ht) \<and> y < s \<and> s < y + ht"
  then show "validRect (x, y, w, s - y)" by (auto simp: validRect_def)
next
  assume "validRect (x, y, w, ht) \<and> y < s \<and> s < y + ht"
  then show "validRect (x, s, w, (y + ht) - s)" by (auto simp: validRect_def)
qed

theorem other_edits_keep_validRect_witness:
  "validRect (1 / 4, 1 / 4, 1 / 4, 1 / 4)
   \<and> handleMouseMove
        \<lparr>as_type = Moving, as_panelId = Some ''p1'', as_handle = None,
         as_startX = 3 / 8, as_startY = 3 / 8,
         as_originalCoords = Some (1 / 4, 1 / 4, 1 / 4, 1 / 4)\<rparr> (2, 3 / 8)
      = Some (''p1'', (3 / 4, 1 / 4, 1 / 4, 1 / 4))
   \<and> validRect (3 / 4, 1 / 4, 1 / 4, 1 / 4)
   \<and> handleMouseUp
        \<lparr>as_type = Drawing, as_panelId = None, as_handle = None,
         as_startX = 1 / 2, as_startY = 1 / 2, as_originalCoords = None\<rparr> (1 / 4, 2)
      = Some (1 / 4, 1 / 2, 1 / 4, 1 / 2)
   \<and> validRect (1 / 4, 1 / 2, 1 / 4, 1 / 2)
   \<and> validRect (coordinates (examplePanel ''a1'' 1 (0, 1 / 2, 1, 1 / 2)))
   \<and> validRect (coordinates (cropPanel (max 0 (min 1 (3 / 4))) Top
                   (examplePanel ''a1'' 1 (0, 1 / 2, 1, 1 / 2))))
   \<and> validRect (0, 1 / 2, 1, 3 / 4 - 1 / 2) \<and> validRect (0, 3 / 4, 1, (1 / 2 + 1 / 2) - 3 / 4)"
proof -
  let ?a = "\<lparr>as_type = Moving, as_panelId = Some ''p1'', as_handle = None,
         as_startX = 3 / 8, as_startY = 3 / 8,
         as_originalCoords = Some (1 / 4, 1 / 4, 1 / 4, 1 / 4)\<rparr>"
  let ?b = "\<lparr>as_type = Drawing, as_panelId = None, as_handle = None,
         as_startX = 1 / 2, as_startY = 1 / 2, as_originalCoords = None\<rparr>"
  have 1: "validRect (1 / 4, 1 / 4, 1 / 4, 1 / 4)" by (simp add: validRect_def)
  have 2: "handleMouseMove ?a (2, 3 / 8) = Some (''p1'', (3 / 4, 1 / 4, 1 / 4, 1 / 4))"
    by (simp add: handleMouseMove_def getRelativeCoords_def Let_def)
  have 3: "handleMouseUp ?b (1 / 4, 2) = Some (1 / 4, 1 / 2, 1 / 4, 1 / 2)"
    by (simp add: handleMouseUp_def getRelativeCoords_def Let_def)
  have 4: "validRect (coordinates (examplePanel ''a1'' 1 (0, 1 / 2, 1, 1 / 2)))"
    by (simp add: validRect_def examplePanel_def)
  have 5: "validRect (0, 1 / 2, 1, 1 / 2)" by (simp add: validRect_def)
  from other_edits_keep_validRect [of "(1 / 4, 1 / 4, 1 / 4, 1 / 4)" ?a "(2, 3 / 8)" "''p1''"
         "(3 / 4, 1 / 4, 1 / 4, 1 / 4)" ?b "(1 / 4, 2)" "(1 / 4, 1 / 2, 1 / 4, 1 / 2)"
         "examplePanel ''a1'' 1 (0, 1 / 2, 1, 1 / 2)" "3 / 4" Top 0 "1 / 2" 1 "1 / 2" "3 / 4"]
       1 2 3 4 5
  show ?thesis by simp
qed

section \<open>The whitespace method on a raster with rows\<close>

text \<open>
  The list of boundaries starts with 0, and a second boundary, if there is one, lies more
  than the minimum panel height below it.
\<close>

definition boundariesInv :: "nat \<Rightarrow> nat list \<Rightarrow> bool" where
  "boundariesInv height bs =
     (case bs of
        [] \<Rightarrow> False
      | b0 # rest \<Rightarrow>
          b0 = 0 \<and> (case rest of [] \<Rightarrow> True
                    | b1 # others \<Rightarrow> (of_nat b1 :: rat) > of_nat height * (5 / 100)))"

lemma boundaryStep_inv:
  assumes "boundariesInv height (fst st)"
  shows "boundariesInv height (fst (boundaryStep grayData width height st y))"
proof -
  obtain bs g where st: "st = (bs, g)" by (cases st)
  from assms st obtain rest where bs: "bs = 0 # rest"
    by (auto simp: boundariesInv_def split: list.splits)
  have app: "boundariesInv height (bs @ [y])"
    if "(of_nat y :: rat) - of_nat (last bs) > of_nat height * (5 / 100)"
  proof (cases rest)
    case Nil
    with bs that show ?thesis by (simp add: boundariesInv_def)
  next
    case (Cons b1 others)
    with bs assms st show ?thesis by (simp add: boundariesInv_def)
  qed
  show ?thesis
    using assms app unfolding st
    by (auto simp: boundaryStep_def Let_def)
qed

lemma foldl_boundaryStep_inv:
  "boundariesInv height (fst st) \<Longrightarrow>
   boundariesInv height (fst (foldl (boundaryStep grayData width height) st ys))"
  by (induction ys arbitrary: st) (simp_all add: boundaryStep_inv)

text \<open>
  A raster with at least one row always gives the whitespace method a panel, so the
  fallback panel of \<open>detectPanels\<close> is returned for rasters of height 0 only, and every
  panel returned for a raster with rows carries the confidence 0.8.
\<close>

theorem whitespace_panels_exist:
  "(0 < height \<longrightarrow> detectByWhitespace grayData width height \<noteq> [])
   \<and> (0 < height \<longrightarrow>
        (\<exists>ps. detectPanels now (Loaded width height data) = Inr ps \<and> ps \<noteq> [] \<and>
              list_all (\<lambda>p. confidence p = 8 / 10) ps))"
proof -
  have ne: "detectByWhitespace g width height \<noteq> []" if h: "0 < height" for g
  proof -
    let ?bs = "fst (foldl (boundaryStep g width height) ([0], False) [0..<height])"
    have "boundariesInv height (fst ([0::nat], False))"
      by (simp add: boundariesInv_def)
    from foldl_boundaryStep_inv [OF this]
    have inv: "boundariesInv height ?bs" .
    then obtain rest where bs: "?bs = 0 # rest"
      by (auto simp: boundariesInv_def split: list.splits)
    show ?thesis
    proof (cases rest)
      case Nil
      have "(of_nat height :: rat) * (5 / 100) < of_nat height"
        using h by simp
      with bs Nil show ?thesis
        by (simp add: detectByWhitespace_def Let_def)
    next
      case (Cons b1 others)
      with inv bs have "(of_nat b1 :: rat) > of_nat height * (5 / 100)"
        by (simp add: boundariesInv_def)
      with bs Cons show ?thesis
        by (simp add: detectByWhitespace_def Let_def)
    qed
  qed
  have conf: "list_all (\<lambda>p. confidence p = 8 / 10) (detectByWhitespace g width height)" for g
    by (auto simp: detectByWhitespace_def Let_def list_all_iff split: if_splits)
  have "\<exists>ps. detectPanels now (Loaded width height data) = Inr ps \<and> ps \<noteq> [] \<and>
              list_all (\<lambda>p. confidence p = 8 / 10) ps" if h: "0 < height"
  proof -
    let ?wp = "detectByWhitespace (toGrayscale data) width height"
    let ?ps = "map (\<lambda>(i, p). PanelBase.extend p
                 (PanelWithId.fields (''cv-'' @ decimal (now i) @ ''-'' @ decimal i)))
               (enumerate 0 ?wp)"
    from ne [OF h] have wne: "?wp \<noteq> []" .
    then have res: "detectPanels now (Loaded width height data) = Inr ?ps"
      by (simp add: detectPanels_def Let_def)
    have "length ?ps = length ?wp" by simp
    with wne have pne: "?ps \<noteq> []" by (metis length_0_conv)
    have "confidence (snd ip) = 8 / 10" if "ip \<in> set (enumerate 0 ?wp)" for ip
    proof -
      from that have "snd ip \<in> set ?wp"
        by (metis in_set_zipE enumerate_eq_zip prod.collapse)
      with conf [of "toGrayscale data"] show ?thesis by (simp add: list_all_iff)
    qed
    then have "list_all (\<lambda>p. confidence p = 8 / 10) ?ps"
      by (auto simp: list_all_iff PanelBase.defs PanelWithId.defs)
    with res pne show ?thesis by blast
  qed
  with ne show ?thesis by blast
qed

text \<open>A white page of one column and two rows: one panel over the whole page.\<close>

theorem whitespace_panels_exist_witness:
  "(0::nat) < 2
   \<and> map coordinates (detectByWhitespace (toGrayscale (\<lambda>i. 255)) 1 2) = [(0, 0, 1, 1)]
   \<and> detectByWhitespace (toGrayscale (\<lambda>i. 255)) 1 2 \<noteq> []
   \<and> (\<exists>ps. detectPanels (\<lambda>i. 0) (Loaded 1 2 (\<lambda>i. 255)) = Inr ps \<and> ps \<noteq> [] \<and>
            list_all (\<lambda>p. confidence p = 8 / 10) ps)"
proof -
  have 1: "map coordinates (detectByWhitespace (toGrayscale (\<lambda>i. 255)) 1 2) = [(0, 0, 1, 1)]"
    by code_simp
  from whitespace_panels_exist [of 2 "toGrayscale (\<lambda>i. 255)" 1 "\<lambda>i. 0" "\<lambda>i. 255"] 1
  show ?thesis by simp
qed

end
